theory Spec2Isabelle
  imports Complex_Main "HOL-Library.Multiset" "HOL-Library.Char_ord" "HOL-Library.List_Lexorder"
    "HOL-Library.Product_Lexorder"
begin

section \<open>Values, exceptions and the cache\<close>

text \<open>
  The client keeps dynamically typed values in its cache file and receives JSON from
  the signing authority. Both are modelled by one datatype of values: \<open>JNull\<close> is
  Python's \<open>None\<close>, and a dict is an association list with distinct keys, read with
  \<open>map_of\<close>.
\<close>

datatype json =
    JNull
  | JBool bool
  | JNum real
  | JStr string
  | JArr "json list"
  | JObj "(string \<times> json) list"

text \<open>Python truthiness, as \<open>if x:\<close> and \<open>x and y\<close> test it.\<close>

fun truthy :: "json \<Rightarrow> bool" where
  "truthy JNull = False"
| "truthy (JBool b) = b"
| "truthy (JNum r) = (r \<noteq> 0)"
| "truthy (JStr s) = (s \<noteq> [])"
| "truthy (JArr xs) = (xs \<noteq> [])"
| "truthy (JObj kvs) = (kvs \<noteq> [])"

text \<open>The exceptions the modelled code raises or lets through.\<close>

datatype exn =
    LambdaInvocationException string
  | ClientError string
  | ConnectionError
  | EndpointConnectionError
  | ServiceConnectionError
  | Forbidden
  | SystemExit nat
  | Exception string
  | FileNotFoundError
  | JSONDecodeError
  | KeyError string
  | ValueError
  | TypeError
  | AttributeError

text \<open>\<open>x[key]\<close> for a string key: only a dict can be read this way.\<close>

fun subscript :: "json \<Rightarrow> string \<Rightarrow> exn + json" where
  "subscript (JObj kvs) k = (case map_of kvs k of None \<Rightarrow> Inl (KeyError k) | Some v \<Rightarrow> Inr v)"
| "subscript _ k = Inl TypeError"

text \<open>\<open>dict.update\<close> with one key, and \<open>d[k] = v\<close>.\<close>

fun upd :: "'k \<Rightarrow> 'v \<Rightarrow> ('k \<times> 'v) list \<Rightarrow> ('k \<times> 'v) list" where
  "upd k v [] = [(k, v)]"
| "upd k v ((k', v') # kvs) = (if k' = k then (k, v) # kvs else (k', v') # upd k v kvs)"

datatype cachemode = CACHEMODE_ENABLED | CACHEMODE_RECACHE

text \<open>
  Modelled from the spec: the class BlessCache (bless_cache.py is not among the
  sources). The spec's CacheStore has \<open>get(key) -> value|absent\<close>, \<open>set(key, value)\<close>
  (in memory only) and \<open>save()\<close> (persist all pending sets). \<open>entries\<close> is the
  in-memory mapping and \<open>saved\<close> the backing file; an absent key reads as
  \<open>None\<close>. The mode is the constructor argument that \<open>get_bless_cache\<close> passes.
  The spec's store has no modes, so the three operations do not depend on the mode, and
  what a cache opened in a mode holds in memory for a given backing file is not fixed
  here: it is the function \<open>load\<close> that \<open>get_bless_cache\<close> takes.
\<close>

record bless_cache =
  mode :: cachemode
  entries :: "(string \<times> json) list"
  saved :: "(string \<times> json) list"

definition cache_get :: "bless_cache \<Rightarrow> string \<Rightarrow> json" where
  "cache_get c k = (case map_of (entries c) k of None \<Rightarrow> JNull | Some v \<Rightarrow> v)"

definition cache_set :: "bless_cache \<Rightarrow> string \<Rightarrow> json \<Rightarrow> bless_cache" where
  "cache_set c k v = c\<lparr>entries := upd k v (entries c)\<rparr>"

definition cache_save :: "bless_cache \<Rightarrow> bless_cache" where
  "cache_save c = c\<lparr>saved := entries c\<rparr>"

text \<open>
  \<open>get_bless_cache\<close>: the cache file opened in the mode the run asks for. \<open>load\<close> is
  the constructor of BlessCache: the entries that a cache opened in the given mode reads
  from the given file.
\<close>

definition get_bless_cache :: "(cachemode \<Rightarrow> (string \<times> json) list \<Rightarrow> (string \<times> json) list) \<Rightarrow> bool
    \<Rightarrow> (string \<times> json) list \<Rightarrow> bless_cache" where
  "get_bless_cache load nocache file =
     (let cachemode = (if nocache then CACHEMODE_RECACHE else CACHEMODE_ENABLED)
      in \<lparr>mode = cachemode, entries = load cachemode file, saved = file\<rparr>)"

text \<open>
  Every request the client sends to the outside, and every call of an external
  collaborator, is recorded as an event, in order.
\<close>

datatype event =
    HttpGet string
  | GetUser
  | AssumeRole string
  | MintToken string
  | FreshnessCheck
  | SignRequest string
  | KeyGen
  | AgentRemove
  | WriteCert string
  | AgentAdd
  | Prompt
  | VaultAuth string
  | VaultSign

section \<open>The public IP of the caller (user\_ip.py)\<close>

text \<open>
  What the outside world answers: \<open>http_get url\<close> is the status and body of the
  request \<open>_fetchIP\<close> sends for \<open>url\<close>, or \<open>None\<close> when name resolution or the
  request raises; \<open>time_time\<close> is the reading of \<open>time.time()\<close>, a real number of
  seconds. One reading serves all the calls made during one check: the clock does not
  advance while the code runs.
\<close>

record user_ip =
  fresh :: bool
  currentIP :: "string option"
  maxcachetime :: int
  ip_urls :: "string list"

text \<open>\<open>UserIP.__init__\<close>; \<open>fixed_ip\<close> is \<open>None\<close> for the default \<open>False\<close>.\<close>

definition UserIP :: "int \<Rightarrow> string list \<Rightarrow> string option \<Rightarrow> user_ip" where
  "UserIP maxcache urls fixed_ip =
     (if fixed_ip \<noteq> None \<and> fixed_ip \<noteq> Some []
      then \<lparr>fresh = True, currentIP = fixed_ip, maxcachetime = maxcache, ip_urls = urls\<rparr>
      else \<lparr>fresh = False, currentIP = None, maxcachetime = maxcache, ip_urls = urls\<rparr>)"

definition VALID_IP_CHARACTERS :: string where
  "VALID_IP_CHARACTERS = ''0123456789abcdefABCDEF.:''"

text \<open>
  A character is a code point below 256. Of these, \<open>str.strip()\<close> removes the ones
  for which \<open>str.isspace()\<close> holds: the ASCII white space, the four separators
  U+001C to U+001F, the next-line control U+0085 and the no-break space U+00A0.
\<close>

definition is_space :: "char \<Rightarrow> bool" where
  "is_space c = (c \<in> set [CHR '' '', CHR 0x09, CHR 0x0A, CHR 0x0B, CHR 0x0C, CHR 0x0D,
                            CHR 0x1C, CHR 0x1D, CHR 0x1E, CHR 0x1F, CHR 0x85, CHR 0xA0])"

definition strip :: "string \<Rightarrow> string" where
  "strip s = rev (dropWhile is_space (rev (dropWhile is_space s)))"

text \<open>\<open>UserIP._fetchIP\<close>: every failure is caught and becomes \<open>None\<close>.\<close>

definition fetchIP :: "(string \<Rightarrow> (nat \<times> string) option) \<Rightarrow> string \<Rightarrow> string option" where
  "fetchIP http_get url =
     (case http_get url of
        None \<Rightarrow> None
      | Some (status_code, text) \<Rightarrow>
          if status_code = 200 then
            (let content = strip text in
             if list_all (\<lambda>c. c \<in> set VALID_IP_CHARACTERS) content then Some content else None)
          else None)"

text \<open>
  The loop of \<open>UserIP._refreshIP\<close>: the endpoints are asked in order until one gives a
  non-empty answer (an empty string is falsy and does not stop the loop).
\<close>

fun refresh_loop :: "(string \<Rightarrow> (nat \<times> string) option) \<Rightarrow> string option \<Rightarrow> string list
    \<Rightarrow> string option \<times> event list" where
  "refresh_loop http_get ip [] = (ip, [])"
| "refresh_loop http_get ip (url # urls) =
     (if ip \<noteq> None \<and> ip \<noteq> Some [] then (ip, [])
      else (case refresh_loop http_get (fetchIP http_get url) urls of
              (ip', evs) \<Rightarrow> (ip', HttpGet url # evs)))"

text \<open>An endpoint whose answer ends the loop: a non-empty address.\<close>

definition answers :: "(string \<Rightarrow> (nat \<times> string) option) \<Rightarrow> string \<Rightarrow> bool" where
  "answers http_get url = (fetchIP http_get url \<noteq> None \<and> fetchIP http_get url \<noteq> Some [])"

text \<open>
  \<open>UserIP._refreshIP\<close>. The resolver object holds a reference to the cache its caller
  uses, so the cache is threaded through: the new address and its time are set and saved.
\<close>

definition refreshIP :: "(string \<Rightarrow> (nat \<times> string) option) \<Rightarrow> real \<Rightarrow> user_ip \<Rightarrow> bless_cache
    \<Rightarrow> (exn + unit) \<times> user_ip \<times> bless_cache \<times> event list" where
  "refreshIP http_get time_time u c =
     (case refresh_loop http_get None (ip_urls u) of
        (ip, evs) \<Rightarrow>
          (case ip of
             None \<Rightarrow> (Inl (Exception ''Could not refresh public IP''), u, c, evs)
           | Some a \<Rightarrow>
               if a = [] then (Inl (Exception ''Could not refresh public IP''), u, c, evs)
               else (Inr (),
                     u\<lparr>currentIP := Some a, fresh := True\<rparr>,
                     cache_save (cache_set (cache_set c ''lastip'' (JStr a))
                                           ''lastipchecktime'' (JNum time_time)),
                     evs)))"

text \<open>
  \<open>lastiptime + self.maxcachetime\<close>: defined on numbers (a bool counts as 0 or 1),
  a TypeError on every other value.
\<close>

fun as_number :: "json \<Rightarrow> real option" where
  "as_number (JNum r) = Some r"
| "as_number (JBool b) = Some (if b then 1 else 0)"
| "as_number _ = None"

definition py_str :: "string option \<Rightarrow> json" where
  "py_str s = (case s of None \<Rightarrow> JNull | Some a \<Rightarrow> JStr a)"

text \<open>\<open>UserIP.getIP\<close>; what it returns is a Python value, \<open>None\<close> included.\<close>

definition getIP :: "(string \<Rightarrow> (nat \<times> string) option) \<Rightarrow> real \<Rightarrow> user_ip \<Rightarrow> bless_cache
    \<Rightarrow> (exn + json) \<times> user_ip \<times> bless_cache \<times> event list" where
  "getIP http_get time_time u c =
     (if fresh u \<and> currentIP u \<noteq> None \<and> currentIP u \<noteq> Some []
      then (Inr (py_str (currentIP u)), u, c, [])
      else
        (let lastip = cache_get c ''lastip'';
             lastiptime = cache_get c ''lastipchecktime''
         in if truthy lastiptime then
              (case as_number lastiptime of
                 None \<Rightarrow> (Inl TypeError, u, c, [])
               | Some t \<Rightarrow>
                   if t + real_of_int (maxcachetime u) > time_time then (Inr lastip, u, c, [])
                   else
                     (case refreshIP http_get time_time u c of
                        (Inl e, u', c', evs) \<Rightarrow> (Inl e, u', c', evs)
                      | (Inr _, u', c', evs) \<Rightarrow> (Inr (py_str (currentIP u')), u', c', evs)))
            else
              (case refreshIP http_get time_time u c of
                 (Inl e, u', c', evs) \<Rightarrow> (Inl e, u', c', evs)
               | (Inr _, u', c', evs) \<Rightarrow> (Inr (py_str (currentIP u')), u', c', evs))))"

section \<open>The certificate freshness check (client.py)\<close>

text \<open>
  The keys of the signing configuration that \<open>check_fresh_cert\<close> reads; both are
  whole numbers of seconds.
\<close>

record lambda_config =
  certlifetime :: int
  ipcachelifetime :: int

text \<open>
  \<open>check_fresh_cert\<close>. \<open>cert_mtime\<close> is \<open>os.path.getmtime(cert_file)\<close> when the file
  exists and \<open>None\<close> when \<open>os.path.isfile\<close> is false. Python's \<open>or\<close> asks for the
  current IP only when the age test before it fails, and the cached \<open>certip\<close> is read
  before that call. The values compared with \<open>==\<close> are the strings (or \<open>None\<close>) the
  client stores under these keys, on which Python's equality is equality of values.
\<close>

definition check_fresh_cert :: "(string \<Rightarrow> (nat \<times> string) option) \<Rightarrow> real \<Rightarrow> real option
    \<Rightarrow> lambda_config \<Rightarrow> bless_cache \<Rightarrow> user_ip \<Rightarrow> json
    \<Rightarrow> (exn + bool) \<times> user_ip \<times> bless_cache \<times> event list" where
  "check_fresh_cert http_get time_time cert_mtime blessconfig c u ip_list =
     (case cert_mtime of
        None \<Rightarrow> (Inr False, u, c, [])
      | Some mtime \<Rightarrow>
          (let certlife = time_time - mtime in
           if certlife < real_of_int (certlifetime blessconfig - 15) then
             (if certlife < real_of_int (ipcachelifetime blessconfig) then
                (Inr (ip_list = JNull \<or> ip_list = cache_get c ''bastion_ips''), u, c, [])
              else
                (let certip = cache_get c ''certip'' in
                 case getIP http_get time_time u c of
                   (Inl e, u', c', evs) \<Rightarrow> (Inl e, u', c', evs)
                 | (Inr ip, u', c', evs) \<Rightarrow>
                     if certip = ip then
                       (Inr (ip_list = JNull \<or> ip_list = cache_get c' ''bastion_ips''),
                        u', c', evs)
                     else (Inr False, u', c', evs)))
           else (Inr False, u, c, [])))"

section \<open>The ring of regions (client.py)\<close>

text \<open>\<open>tuple.index\<close>: the first position of the value, \<open>None\<close> for its ValueError.\<close>

fun index_of :: "'a list \<Rightarrow> 'a \<Rightarrow> nat option" where
  "index_of [] x = None"
| "index_of (y # ys) x = (if y = x then Some 0 else map_option Suc (index_of ys x))"

text \<open>
  The \<open>while\<close> loop of \<open>get_regions\<close>. The index read is below the length of the
  tuple whenever the loop body runs, so the read never raises.
\<close>

function get_regions_loop :: "'a list \<Rightarrow> 'a list \<Rightarrow> nat \<Rightarrow> 'a list" where
  "get_regions_loop aws_regions regions ndx =
     (if length regions < length aws_regions
      then get_regions_loop aws_regions (regions @ [aws_regions ! ndx])
             ((ndx + 1) mod length aws_regions)
      else regions)"
  by pat_completeness auto
termination
  by (relation "measure (\<lambda>(aws_regions, regions, ndx). length aws_regions - length regions)") auto

declare get_regions_loop.simps [simp del]

text \<open>
  \<open>get_regions\<close>; \<open>start_index\<close> is its \<open>try\<close> block, the index of the region
  or 0 after the ValueError. \<open>REGION_ALIAS\<close> is the dict from alias to region of the loaded
  configuration; \<open>sorted\<close> orders strings by code point, which is the lexicographic
  order of their bytes.
\<close>

definition start_index :: "string \<Rightarrow> string list \<Rightarrow> nat" where
  "start_index region aws_regions =
     (case index_of aws_regions region of Some i \<Rightarrow> i | None \<Rightarrow> 0)"

definition get_regions :: "string \<Rightarrow> (string \<times> string) list \<Rightarrow> string list" where
  "get_regions region REGION_ALIAS =
     (let aws_regions = sort (map snd REGION_ALIAS);
          ndx = start_index region aws_regions
      in get_regions_loop aws_regions [] ndx)"

section \<open>Times\<close>

text \<open>
  A calendar time to the second, as \<open>datetime.utcnow()\<close> gives it, is the tuple
  (year, month, day, hour, minute, second); the lexicographic order of such tuples is
  the order of time. A \<open>time.struct_time\<close> is the tuple of nine fields that Python
  compares field by field: the six above, then weekday, day of the year and the DST flag.
\<close>

type_synonym datetime = "int \<times> int \<times> int \<times> int \<times> int \<times> int"

type_synonym struct_time = "int \<times> int \<times> int \<times> int \<times> int \<times> int \<times> int \<times> int \<times> int"

text \<open>
  The functions of Python's standard library that the client calls on times, taken as
  given: \<open>strptime_fields\<close> reads the six fields of a string in the format
  \<open>%Y%m%dT%H%M%SZ\<close> (\<open>None\<close> for its ValueError), \<open>strftime\<close> writes them in that
  format, \<open>day_fields\<close> gives weekday and day of the year of a date, and \<open>plus_minutes\<close>
  and \<open>plus_seconds\<close> add a \<open>timedelta\<close>.
\<close>

record timelib =
  strptime_fields :: "string \<Rightarrow> datetime option"
  strftime :: "datetime \<Rightarrow> string"
  day_fields :: "int \<times> int \<times> int \<Rightarrow> int \<times> int"
  plus_minutes :: "datetime \<Rightarrow> int \<Rightarrow> datetime"
  plus_seconds :: "datetime \<Rightarrow> int \<Rightarrow> datetime"

definition struct_time_of :: "timelib \<Rightarrow> datetime \<Rightarrow> int \<Rightarrow> struct_time" where
  "struct_time_of L dt isdst =
     (case dt of (y, mo, d, h, mi, s) \<Rightarrow>
        (case day_fields L (y, mo, d) of (wday, yday) \<Rightarrow> (y, mo, d, h, mi, s, wday, yday, isdst)))"

text \<open>
  \<open>time.strptime(s, '%Y%m%dT%H%M%SZ')\<close>: the format names no time zone, so the DST
  flag of the result is -1. \<open>time.gmtime()\<close> has the flag 0.
\<close>

definition time_strptime :: "timelib \<Rightarrow> string \<Rightarrow> struct_time option" where
  "time_strptime L s = map_option (\<lambda>dt. struct_time_of L dt (- 1)) (strptime_fields L s)"

definition time_gmtime :: "timelib \<Rightarrow> datetime \<Rightarrow> struct_time" where
  "time_gmtime L utcnow = struct_time_of L utcnow 0"

section \<open>Role credentials (client.py)\<close>

text \<open>
  What \<open>uncache_creds\<close> returns: the cached value as it is, or the cached dict with
  its \<open>Expiration\<close> replaced by the parsed time.
\<close>

datatype creds =
    RawCreds json
  | ParsedCreds "(string \<times> json) list" struct_time

definition uncache_creds :: "timelib \<Rightarrow> json \<Rightarrow> exn + creds" where
  "uncache_creds L cached_data =
     (if truthy cached_data then
        (case cached_data of
           JObj kvs \<Rightarrow>
             (case map_of kvs ''Expiration'' of
                None \<Rightarrow> Inr (RawCreds cached_data)
              | Some (JStr s) \<Rightarrow>
                  (case time_strptime L s of
                     None \<Rightarrow> Inl ValueError
                   | Some expiration \<Rightarrow> Inr (ParsedCreds kvs expiration))
              | Some _ \<Rightarrow> Inl TypeError)
         | _ \<Rightarrow> Inl AttributeError)
      else Inr (RawCreds cached_data))"

text \<open>
  The test \<open>role_creds and role_creds['Expiration'] > time.gmtime()\<close> of
  \<open>get_blessrole_credentials\<close>.
\<close>

definition creds_unexpired :: "timelib \<Rightarrow> datetime \<Rightarrow> creds \<Rightarrow> exn + bool" where
  "creds_unexpired L utcnow role_creds =
     (case role_creds of
        RawCreds v \<Rightarrow>
          if truthy v then (case subscript v ''Expiration'' of Inl e \<Rightarrow> Inl e | Inr _ \<Rightarrow> Inl TypeError)
          else Inr False
      | ParsedCreds kvs expiration \<Rightarrow> Inr (expiration > time_gmtime L utcnow))"

text \<open>The credentials an \<open>assume_role\<close> call returns.\<close>

record sts_credentials =
  AccessKeyId :: string
  SecretAccessKey :: string
  SessionToken :: string
  Expiration :: datetime

definition make_cachable_creds :: "timelib \<Rightarrow> sts_credentials \<Rightarrow> json" where
  "make_cachable_creds L token_data =
     JObj [(''AccessKeyId'', JStr (AccessKeyId token_data)),
           (''SecretAccessKey'', JStr (SecretAccessKey token_data)),
           (''SessionToken'', JStr (SessionToken token_data)),
           (''Expiration'', JStr (strftime L (Expiration token_data)))]"

text \<open>
  The identity and token services: \<open>iam_get_user\<close> answers with user name and ARN,
  \<open>sts_assume_role\<close> is asked with the base credentials and the role ARN. The function
  \<open>awsmfautils.get_role_arn\<close> is not among the sources and is taken as given.
\<close>

record aws_env =
  iam_get_user :: "exn + string \<times> string"
  sts_assume_role :: "json \<Rightarrow> string \<Rightarrow> exn + sts_credentials"
  get_role_arn :: "json \<Rightarrow> string \<Rightarrow> string \<Rightarrow> string"

record role_config =
  userrole :: string
  accountid :: string

datatype role_creds = Cached creds | Fresh sts_credentials

text \<open>
  \<open>get_blessrole_credentials\<close> after its first two lines, in three steps. First the
  STS client is made, from the three keys of the base credentials when there are any.
\<close>

definition mfa_sts_client :: "json \<Rightarrow> exn + unit" where
  "mfa_sts_client base_creds =
     (if base_creds \<noteq> JNull
      then (case subscript base_creds ''AccessKeyId'' of
              Inl e \<Rightarrow> Inl e
            | Inr _ \<Rightarrow> (case subscript base_creds ''SecretAccessKey'' of
                Inl e \<Rightarrow> Inl e
              | Inr _ \<Rightarrow> (case subscript base_creds ''SessionToken'' of
                  Inl e \<Rightarrow> Inl e
                | Inr _ \<Rightarrow> Inr ())))
      else Inr ())"

text \<open>
  Then the caller's ARN is read from the cache, or looked up and cached with the user
  name.
\<close>

definition caller_arn :: "aws_env \<Rightarrow> bless_cache \<Rightarrow> (exn + json) \<times> bless_cache \<times> event list" where
  "caller_arn A c =
     (if truthy (cache_get c ''userarn'') then (Inr (cache_get c ''userarn''), c, [])
      else (case iam_get_user A of
              Inl e \<Rightarrow> (Inl e, c, [GetUser])
            | Inr (user_name, arn) \<Rightarrow>
                (Inr (JStr arn),
                 cache_save (cache_set (cache_set c ''username'' (JStr user_name))
                                       ''userarn'' (JStr arn)),
                 [GetUser])))"

text \<open>Last the role is assumed and the credentials are cached and saved.\<close>

definition assume_blessrole :: "timelib \<Rightarrow> aws_env \<Rightarrow> json \<Rightarrow> role_config \<Rightarrow> bless_cache
    \<Rightarrow> (exn + role_creds) \<times> bless_cache \<times> event list" where
  "assume_blessrole L A base_creds lambda_conf c =
     (case mfa_sts_client base_creds of
        Inl e \<Rightarrow> (Inl e, c, [])
      | Inr _ \<Rightarrow>
          (case caller_arn A c of
             (Inl e, c1, evs) \<Rightarrow> (Inl e, c1, evs)
           | (Inr user_arn, c1, evs) \<Rightarrow>
               (let role_arn = get_role_arn A user_arn (userrole lambda_conf) (accountid lambda_conf) in
                case sts_assume_role A base_creds role_arn of
                  Inl e \<Rightarrow> (Inl e, c1, evs @ [AssumeRole role_arn])
                | Inr rc \<Rightarrow>
                    (Inr (Fresh rc),
                     cache_save (cache_set c1 ''blessrole_creds'' (make_cachable_creds L rc)),
                     evs @ [AssumeRole role_arn]))))"

definition get_blessrole_credentials :: "timelib \<Rightarrow> aws_env \<Rightarrow> datetime \<Rightarrow> json \<Rightarrow> role_config
    \<Rightarrow> bless_cache \<Rightarrow> (exn + role_creds) \<times> bless_cache \<times> event list" where
  "get_blessrole_credentials L A utcnow base_creds lambda_conf c =
     (case uncache_creds L (cache_get c ''blessrole_creds'') of
        Inl e \<Rightarrow> (Inl e, c, [])
      | Inr role_creds \<Rightarrow>
          (case creds_unexpired L utcnow role_creds of
             Inl e \<Rightarrow> (Inl e, c, [])
           | Inr valid \<Rightarrow>
               if valid then (Inr (Cached role_creds), c, [])
               else assume_blessrole L A base_creds lambda_conf c))"

section \<open>The kmsauth token (client.py)\<close>

record kmsauth_config =
  kmskey :: string
  kms_context :: "(string \<times> string) list"
  awsregion :: string

definition kmsauth_cache_key :: "kmsauth_config \<Rightarrow> string" where
  "kmsauth_cache_key config = ''kmsauth-'' @ awsregion config"

definition clear_kmsauth_token_cache :: "kmsauth_config \<Rightarrow> bless_cache \<Rightarrow> bless_cache" where
  "clear_kmsauth_token_cache config c =
     cache_save (cache_set c (kmsauth_cache_key config)
                   (JObj [(''token'', JNull), (''Expiration'', JStr ''20160101T000000Z'')]))"

text \<open>
  The cached branch of \<open>get_kmsauth_token\<close>: the token to return, \<open>None\<close> when the
  function goes on to mint one.
\<close>

definition cached_kmsauth_token :: "timelib \<Rightarrow> datetime \<Rightarrow> json \<Rightarrow> exn + json option" where
  "cached_kmsauth_token L utcnow kmsauth_cache =
     (if truthy kmsauth_cache then
        (case subscript kmsauth_cache ''Expiration'' of
           Inl e \<Rightarrow> Inl e
         | Inr (JStr s) \<Rightarrow>
             (case time_strptime L s of
                None \<Rightarrow> Inl ValueError
              | Some expiration \<Rightarrow>
                  if expiration > time_gmtime L utcnow then
                    (case subscript kmsauth_cache ''token'' of
                       Inl e \<Rightarrow> Inl e
                     | Inr token \<Rightarrow> if token \<noteq> JNull then Inr (Some token) else Inr None)
                  else Inr None)
         | Inr _ \<Rightarrow> Inl TypeError)
      else Inr None)"

text \<open>
  \<open>get_kmsauth_token\<close>. \<open>mint\<close> is the token generator of the kmsauth library, called
  with the credentials, the key, the context (with the user name put under \<open>from\<close>)
  and the region; \<open>TOKEN_SKEW\<close> is that library's constant, in minutes. The token
  lifetime asked for is the literal 60 of the source.
\<close>

definition get_kmsauth_token :: "timelib \<Rightarrow> int \<Rightarrow> (json \<Rightarrow> string \<Rightarrow> (string \<times> string) list \<Rightarrow> string \<Rightarrow> exn + string)
    \<Rightarrow> datetime \<Rightarrow> json \<Rightarrow> kmsauth_config \<Rightarrow> string \<Rightarrow> bless_cache
    \<Rightarrow> (exn + json) \<times> bless_cache \<times> event list" where
  "get_kmsauth_token L TOKEN_SKEW mint utcnow base_creds config user c =
     (let cache_key = kmsauth_cache_key config in
      case cached_kmsauth_token L utcnow (cache_get c cache_key) of
        Inl e \<Rightarrow> (Inl e, c, [])
      | Inr (Some token) \<Rightarrow> (Inr token, c, [])
      | Inr None \<Rightarrow>
          (case mint base_creds (kmskey config) (upd ''from'' user (kms_context config)) (awsregion config) of
             Inl e \<Rightarrow>
               (if e = ServiceConnectionError
                then (Inl (LambdaInvocationException ''Connection error getting kmsauth token.''),
                      c, [MintToken (awsregion config)])
                else (Inl e, c, [MintToken (awsregion config)]))
           | Inr token \<Rightarrow>
               (let lifetime = 60 - TOKEN_SKEW * 2 in
                if lifetime > 0 then
                  (Inr (JStr token),
                   cache_save (cache_set c cache_key
                     (JObj [(''token'', JStr token),
                            (''Expiration'', JStr (strftime L (plus_minutes L utcnow lifetime)))])),
                   [MintToken (awsregion config)])
                else (Inr (JStr token), c, [MintToken (awsregion config)]))))"

section \<open>The signing pipeline (client.py, \<open>bless\<close>)\<close>

text \<open>\<open>k in x\<close> for a string \<open>k\<close>: key of a dict, element of a list, part of a string.\<close>

fun is_infix :: "string \<Rightarrow> string \<Rightarrow> bool" where
  "is_infix k [] = (k = [])"
| "is_infix k (c # cs) = (take (length k) (c # cs) = k \<or> is_infix k cs)"

fun py_in :: "string \<Rightarrow> json \<Rightarrow> exn + bool" where
  "py_in k (JObj kvs) = Inr (k \<in> set (map fst kvs))"
| "py_in k (JArr xs) = Inr (JStr k \<in> set xs)"
| "py_in k (JStr s) = Inr (is_infix k s)"
| "py_in k _ = Inl TypeError"

text \<open>\<open>'errorType' in error_msg and error_msg['errorType'] == name\<close>.\<close>

definition has_error_type :: "json \<Rightarrow> string \<Rightarrow> exn + bool" where
  "has_error_type error_msg name =
     (case py_in ''errorType'' error_msg of
        Inl e \<Rightarrow> Inl e
      | Inr present \<Rightarrow>
          if present then
            (case subscript error_msg ''errorType'' of
               Inl e \<Rightarrow> Inl e
             | Inr v \<Rightarrow> Inr (v = JStr name))
          else Inr False)"

definition CERT_PREFIX :: string where
  "CERT_PREFIX = ''ssh-rsa-cert-v01@openssh.com ''"

text \<open>
  The check of the signing response in \<open>bless\<close> (the block under
  \<open>if cert[:29] != 'ssh-rsa-cert-v01@openssh.com '\<close>). \<open>json_loads\<close> is the parser of
  the standard library, \<open>None\<close> for its JSONDecodeError. The result is the exception
  raised, or \<open>Inr ()\<close> when the response is a certificate, with the cache as the block
  leaves it.
\<close>

definition check_cert :: "(string \<Rightarrow> json option) \<Rightarrow> bool \<Rightarrow> kmsauth_config \<Rightarrow> bless_cache \<Rightarrow> string
    \<Rightarrow> (exn + unit) \<times> bless_cache" where
  "check_cert json_loads nocache config c cert =
     (if take 29 cert \<noteq> CERT_PREFIX then
        (case json_loads cert of
           None \<Rightarrow> (Inl JSONDecodeError, c)
         | Some error_msg \<Rightarrow>
             (case has_error_type error_msg ''KMSAuthValidationError'' of
                Inl e \<Rightarrow> (Inl e, c)
              | Inr kms \<Rightarrow>
                  if kms \<and> \<not> nocache then
                    (Inl (LambdaInvocationException ''KMSAuth validation error''),
                     clear_kmsauth_token_cache config c)
                  else
                    (case has_error_type error_msg ''ClientError'' of
                       Inl e \<Rightarrow> (Inl e, c)
                     | Inr client \<Rightarrow>
                         if client then
                           (Inl (LambdaInvocationException
                              ''The BLESS lambda experienced a client error. Consider trying in a different region.''), c)
                         else
                           (case has_error_type error_msg ''InputValidationError'' of
                              Inl e \<Rightarrow> (Inl e, c)
                            | Inr invalid \<Rightarrow>
                                if invalid then
                                  (Inl (Exception
                                     ''The input to the BLESS lambda is invalid. Please update your blessclient by running `make update` in the bless folder.''), c)
                                else
                                  (Inl (LambdaInvocationException
                                     (''BLESS client did not recieve a valid cert. Instead got: '' @ cert)), c)))))
      else (Inr (), c))"

text \<open>The request sent to the signing function.\<close>

record sign_payload =
  bastion_user :: string
  bastion_user_ip :: json
  remote_usernames :: string
  bastion_ips :: json
  command :: string
  public_key_to_sign :: string

text \<open>
  What \<open>bless\<close> has computed when it reaches the freshness gate
  (\<open>if nocache is not True\<close>): the user, the caller's IP, the bastion list and remote
  IP, the kmsauth configuration of the region, the identity file, and the cache and IP
  resolver objects in their current state.
\<close>

record bless_ctx =
  username :: string
  my_ip :: json
  ip_list :: json
  remote_ip :: json
  kmsauth_conf :: kmsauth_config
  identity_file :: string
  cache :: bless_cache
  userIP :: user_ip

text \<open>
  The surroundings of the pipeline: the answers of the IP endpoints, the clock, the
  modification time of the certificate file, the public key file (\<open>None\<close> when it does
  not exist) and the key that \<open>generate_ssh_key\<close> writes then, the signing function
  \<open>BlessLambda.getCert\<close> (not among the sources) asked with region and payload, the
  JSON parser, and two configuration values.
\<close>

record bless_env =
  http_get :: "string \<Rightarrow> (nat \<times> string) option"
  time_time :: real
  cert_mtime :: "real option"
  public_key_file :: "string option"
  generated_key :: string
  getCert :: "string \<Rightarrow> sign_payload \<Rightarrow> exn + string"
  json_loads :: "string \<Rightarrow> json option"
  update_sshagent :: bool
  remote_user :: "string option"

text \<open>
  The \<open>try\<close> block that reads the public key file, generating the key pair after a
  FileNotFoundError, and the payload of the signing request.
\<close>

definition read_public_key :: "bless_env \<Rightarrow> string \<times> event list" where
  "read_public_key E =
     (case public_key_file E of
        Some k \<Rightarrow> (k, [])
      | None \<Rightarrow> (generated_key E, [KeyGen]))"

definition sign_request :: "bless_env \<Rightarrow> bless_ctx \<Rightarrow> string \<Rightarrow> sign_payload" where
  "sign_request E ctx public_key =
     \<lparr>bastion_user = username ctx,
      bastion_user_ip = my_ip ctx,
      remote_usernames = (case remote_user E of
                            None \<Rightarrow> username ctx
                          | Some r \<Rightarrow> if r \<noteq> [] then r else username ctx),
      bastion_ips = ip_list ctx,
      command = ''*'',
      public_key_to_sign = public_key\<rparr>"

text \<open>
  \<open>bless\<close> from \<open>bless_cache.set('bastion_ips', ip_list)\<close> to its end: the context is
  cached, the public key read (and generated when missing), the certificate requested,
  the response checked, the certificate installed and the issuing IP cached. The value
  returned stands for \<open>{"username": username}\<close>.
\<close>

definition bless_sign :: "bless_env \<Rightarrow> string \<Rightarrow> bool \<Rightarrow> bless_ctx \<Rightarrow> bless_cache
    \<Rightarrow> (exn + string) \<times> bless_cache \<times> event list" where
  "bless_sign E region nocache ctx c =
     (let c1 = cache_save (cache_set (cache_set c ''bastion_ips'' (ip_list ctx))
                                     ''remote_ip'' (remote_ip ctx))
      in case read_public_key E of
           (public_key, kevs) \<Rightarrow>
             if take 8 public_key \<noteq> ''ssh-rsa '' then
               (Inl (Exception (''Refusing to bless '' @ identity_file ctx @ ''. Probably not an identity file.'')),
                c1, kevs)
             else
               (case getCert E region (sign_request E ctx public_key) of
                  Inl e \<Rightarrow> (Inl e, c1, kevs @ [SignRequest region])
                | Inr cert \<Rightarrow>
                    (case check_cert (json_loads E) nocache (kmsauth_conf ctx) c1 cert of
                       (Inl e, c2) \<Rightarrow> (Inl e, c2, kevs @ [SignRequest region])
                     | (Inr _, c2) \<Rightarrow>
                         (Inr (username ctx),
                          cache_save (cache_set c2 ''certip'' (my_ip ctx)),
                          kevs @ [SignRequest region, AgentRemove, WriteCert cert]
                            @ (if update_sshagent E then [AgentAdd] else [])))))"

text \<open>\<open>bless\<close> from the freshness gate on.\<close>

definition bless_pipeline :: "bless_env \<Rightarrow> lambda_config \<Rightarrow> string \<Rightarrow> bool \<Rightarrow> bless_ctx
    \<Rightarrow> (exn + string) \<times> bless_cache \<times> event list" where
  "bless_pipeline E blessconfig region nocache ctx =
     (if \<not> nocache then
        (case check_fresh_cert (http_get E) (time_time E) (cert_mtime E) blessconfig
                (cache ctx) (userIP ctx) (ip_list ctx) of
           (Inl e, u', c', evs) \<Rightarrow> (Inl e, c', FreshnessCheck # evs)
         | (Inr is_fresh, u', c', evs) \<Rightarrow>
             if is_fresh then (Inr (username ctx), c', FreshnessCheck # evs)
             else (case bless_sign E region nocache ctx c' of
                     (r, c'', evs') \<Rightarrow> (r, c'', FreshnessCheck # evs @ evs')))
      else bless_sign E region nocache ctx (cache ctx))"

text \<open>
  \<open>bless\<close>. Its first part (logging, the cache opened in the mode of the run, the
  update check, the caller's IP, the user name, the credentials and the kmsauth token,
  the bastion list) is taken as given: \<open>prelude\<close> maps region, \<open>nocache\<close> and the cache
  file to the exception it ends with and the cache file it leaves, or to the context at
  the gate. The cache file after the call is what was saved last.
\<close>

definition bless :: "(string \<Rightarrow> bool \<Rightarrow> (string \<times> json) list \<Rightarrow> exn \<times> (string \<times> json) list + bless_ctx)
    \<Rightarrow> bless_env \<Rightarrow> lambda_config \<Rightarrow> string \<Rightarrow> bool \<Rightarrow> (string \<times> json) list
    \<Rightarrow> (exn + string) \<times> (string \<times> json) list \<times> event list" where
  "bless prelude E blessconfig region nocache file =
     (case prelude region nocache file of
        Inl (e, file') \<Rightarrow> (Inl e, file', [])
      | Inr ctx \<Rightarrow>
          (case bless_pipeline E blessconfig region nocache ctx of
             (r, c, evs) \<Rightarrow> (r, saved c, evs)))"

section \<open>The loop over the regions (client.py, \<open>main\<close>)\<close>

text \<open>How the process ends: an exit status, or an exception nobody caught.\<close>

datatype outcome = Exit nat | Uncaught exn

text \<open>The two \<open>except\<close> clauses of the loop in \<open>main\<close>.\<close>

fun caught :: "exn \<Rightarrow> bool" where
  "caught (ClientError _) = True"
| "caught (LambdaInvocationException _) = True"
| "caught ConnectionError = True"
| "caught EndpointConnectionError = True"
| "caught _ = False"

fun uncaught :: "exn \<Rightarrow> outcome" where
  "uncaught (SystemExit n) = Exit n"
| "uncaught e = Uncaught e"

text \<open>
  The \<open>for\<close> loop of \<open>main\<close> with what follows it. \<open>attempt\<close> is the body of the
  \<open>try\<close>; the result lists the regions tried besides outcome, cache file and events.
\<close>

fun main_loop :: "(string \<Rightarrow> 'w \<Rightarrow> (exn + 'a) \<times> 'w \<times> event list) \<Rightarrow> string list \<Rightarrow> 'w
    \<Rightarrow> outcome \<times> 'w \<times> event list \<times> string list" where
  "main_loop attempt [] w = (Exit 1, w, [], [])"
| "main_loop attempt (region # regions) w =
     (case attempt region w of
        (Inr _, w', evs) \<Rightarrow> (Exit 0, w', evs, [region])
      | (Inl e, w', evs) \<Rightarrow>
          if caught e then
            (case main_loop attempt regions w' of
               (out, w'', evs', tried) \<Rightarrow> (out, w'', evs @ evs', region # tried))
          else (uncaught e, w', evs, [region]))"

definition to_lower :: "char \<Rightarrow> char" where
  "to_lower ch = (if CHR ''A'' \<le> ch \<and> ch \<le> CHR ''Z'' then char_of (of_char ch + (32::nat)) else ch)"

text \<open>
  The body of the \<open>try\<close> in \<open>main\<close>. The argument parser of \<open>main\<close> defines no
  \<open>nocache\<close> option, so reading \<open>args.nocache\<close> for the Vault backend raises
  AttributeError before \<open>vault_bless\<close> is called.
\<close>

definition main_attempt :: "(string \<Rightarrow> bool \<Rightarrow> (string \<times> json) list \<Rightarrow> exn \<times> (string \<times> json) list + bless_ctx)
    \<Rightarrow> bless_env \<Rightarrow> lambda_config \<Rightarrow> string \<Rightarrow> string \<Rightarrow> (string \<times> json) list
    \<Rightarrow> (exn + string) \<times> (string \<times> json) list \<times> event list" where
  "main_attempt prelude E blessconfig ca_backend region file =
     (if map to_lower ca_backend = ''hashicorp-vault'' then (Inl AttributeError, file, [])
      else if map to_lower ca_backend = ''bless'' then bless prelude E blessconfig region True file
      else (Inl (SystemExit 1), file, []))"

text \<open>
  \<open>main\<close> from \<open>start_region = get_region_from_code(...)\<close> on, for a host that matches;
  \<open>start_region\<close> is the region that call returned.
\<close>

definition main :: "(string \<Rightarrow> bool \<Rightarrow> (string \<times> json) list \<Rightarrow> exn \<times> (string \<times> json) list + bless_ctx)
    \<Rightarrow> bless_env \<Rightarrow> lambda_config \<Rightarrow> string \<Rightarrow> string \<Rightarrow> (string \<times> string) list \<Rightarrow> (string \<times> json) list
    \<Rightarrow> outcome \<times> (string \<times> json) list \<times> event list \<times> string list" where
  "main prelude E blessconfig ca_backend start_region REGION_ALIAS file =
     main_loop (main_attempt prelude E blessconfig ca_backend)
       (get_regions start_region REGION_ALIAS) file"

section \<open>The Vault backend (client.py, \<open>vault_bless\<close>)\<close>

text \<open>
  The answers of the Vault server and of the user: \<open>v_credentials\<close> is what
  \<open>get_credentials\<close> reads at the prompt, \<open>v_auth\<close> the login call with URL and
  password, answering with client token, lease duration and user name, and
  \<open>v_getCert n\<close> the \<open>n\<close>-th call of \<open>VaultCA.getCert\<close> (not among the sources) with
  the client's token and the payload. Of the payload the two fields that the pipeline
  computes are kept; the other three (\<open>ttl\<close> and the two SSH backend names) are
  values of the configuration.
\<close>

record vault_payload =
  valid_principals :: string
  public_key :: string











section \<open>Values for the examples\<close>

text \<open>
  Stand-ins for the library and the services in the worked examples below: a time
  library that knows the times of the examples, an identity and token service that always
  answers, and a token generator that always returns the same token.
\<close>

definition example_lib :: timelib where
  "example_lib =
     \<lparr>strptime_fields = map_of [(''20300101T000000Z'', (2030, 1, 1, 0, 0, 0)),
                                (''20160101T000000Z'', (2016, 1, 1, 0, 0, 0))],
      strftime = (\<lambda>dt. if dt = (2025, 6, 1, 12, 54, 0) then ''20250601T125400Z''
                         else if dt = (2025, 6, 1, 13, 0, 0) then ''20250601T130000Z''
                         else ''19700101T000000Z''),
      day_fields = (\<lambda>date. (0, 1)),
      plus_minutes = (\<lambda>dt n. if dt = (2025, 6, 1, 12, 0, 0) \<and> n = 54 then (2025, 6, 1, 12, 54, 0) else dt),
      plus_seconds = (\<lambda>dt n. if dt = (2025, 6, 1, 12, 0, 0) \<and> n = 3600 then (2025, 6, 1, 13, 0, 0) else dt)\<rparr>"

definition example_aws :: aws_env where
  "example_aws =
     \<lparr>iam_get_user = Inr (''alice'', ''arn:aws:iam::123456789012:user/alice''),
      sts_assume_role = (\<lambda>base role_arn. Inr \<lparr>AccessKeyId = ''ASIAEXAMPLE'', SecretAccessKey = ''secret'',
                                               SessionToken = ''session'', Expiration = (2025, 6, 1, 13, 0, 0)\<rparr>),
      get_role_arn = (\<lambda>arn role account. ''arn:aws:iam::'' @ account @ '':role/'' @ role)\<rparr>"

definition example_mint :: "json \<Rightarrow> string \<Rightarrow> (string \<times> string) list \<Rightarrow> string \<Rightarrow> exn + string" where
  "example_mint base key ctx region = Inr ''dG9rZW4=''"

text \<open>
  A constructor of the cache under which a cache opened in no-cache mode starts empty
  and every other cache starts with the entries of its file.
\<close>

definition example_load :: "cachemode \<Rightarrow> (string \<times> json) list \<Rightarrow> (string \<times> json) list" where
  "example_load m file = (if m = CACHEMODE_RECACHE then [] else file)"

text \<open>
  Two error responses of the signing function with the values they parse to, a signing
  function that answers the first of them in \<open>us-east-1\<close> and a certificate
  elsewhere, the surroundings of a run, a first part of \<open>bless\<close> that always reaches
  the gate, and a Vault server that refuses the first signing call.
\<close>

definition other_error_response :: string where
  \<open>other_error_response = ''{"errorType": "AccessDeniedException"}''\<close>

definition kmsauth_error_response :: string where
  \<open>kmsauth_error_response = ''{"errorType": "KMSAuthValidationError"}''\<close>

definition example_loads :: "string \<Rightarrow> json option" where
  "example_loads =
     map_of [(other_error_response, JObj [(''errorType'', JStr ''AccessDeniedException'')]),
             (kmsauth_error_response, JObj [(''errorType'', JStr ''KMSAuthValidationError'')])]"

definition example_getCert :: "string \<Rightarrow> sign_payload \<Rightarrow> exn + string" where
  "example_getCert region payload =
     (if region = ''us-east-1'' then Inr other_error_response
      else Inr (CERT_PREFIX @ ''AAAAHHNzaC1yc2EtY2VydC12MDFAb3BlbnNzaC5jb20''))"

definition example_env :: bless_env where
  "example_env =
     \<lparr>http_get = map_of [], time_time = 1000, cert_mtime = None,
      public_key_file = Some ''ssh-rsa AAAAB3NzaC1yc2E alice'',
      generated_key = ''ssh-rsa AAAAB3NzaC1yc2E generated'',
      getCert = example_getCert, json_loads = example_loads,
      update_sshagent = True, remote_user = None\<rparr>"

definition example_prelude :: "string \<Rightarrow> bool \<Rightarrow> (string \<times> json) list \<Rightarrow> exn \<times> (string \<times> json) list + bless_ctx" where
  "example_prelude region nocache file =
     Inr \<lparr>username = ''alice'', my_ip = JStr ''203.0.113.5'', ip_list = JStr ''203.0.113.5'',
          remote_ip = JNull,
          kmsauth_conf = \<lparr>kmskey = ''alias/bless'', kms_context = [(''to'', ''bless'')], awsregion = region\<rparr>,
          identity_file = ''/home/alice/.ssh/blessid'',
          cache = get_bless_cache example_load nocache file,
          userIP = UserIP 120 [] (Some ''203.0.113.5'')\<rparr>"


section \<open>Facts about the cache\<close>

lemma map_of_upd: "map_of (upd k v kvs) k' = (if k' = k then Some v else map_of kvs k')"
  by (induction kvs) auto

lemma cache_get_set:
  "cache_get (cache_set c k v) k' = (if k' = k then v else cache_get c k')"
  by (simp add: cache_get_def cache_set_def map_of_upd)

lemma cache_get_save: "cache_get (cache_save c) k = cache_get c k"
  by (simp add: cache_get_def cache_save_def)

section \<open>The IP resolver\<close>

lemma refresh_loop_events:
  "refresh_loop h ip urls = (ip', evs) \<Longrightarrow> \<exists>n. evs = map HttpGet (take n urls)"
proof (induction urls arbitrary: ip ip' evs)
  case Nil
  then show ?case by simp
next
  case (Cons url urls)
  show ?case
  proof (cases "ip \<noteq> None \<and> ip \<noteq> Some []")
    case True
    with Cons.prems have "evs = map HttpGet (take 0 (url # urls))" by simp
    then show ?thesis by blast
  next
    case False
    obtain ip2 evs2 where r: "refresh_loop h (fetchIP h url) urls = (ip2, evs2)"
      by (cases "refresh_loop h (fetchIP h url) urls") auto
    from Cons.IH[OF r] obtain n where n: "evs2 = map HttpGet (take n urls)" by blast
    from False Cons.prems r have "evs = HttpGet url # evs2" by auto
    with n have "evs = map HttpGet (take (Suc n) (url # urls))" by simp
    then show ?thesis by blast
  qed
qed

lemma refresh_loop_asks: "urls \<noteq> [] \<Longrightarrow> snd (refresh_loop h None urls) \<noteq> []"
  by (cases urls) (auto split: prod.splits)

lemma refresh_loop_stops:
  "ip \<noteq> None \<Longrightarrow> ip \<noteq> Some [] \<Longrightarrow> refresh_loop h ip urls = (ip, [])"
  by (cases urls) auto

lemma refresh_loop_find:
  "ip = None \<or> ip = Some [] \<Longrightarrow>
   refresh_loop h ip urls =
     (case find (answers h) urls of
        None \<Rightarrow> (if urls = [] then ip else fetchIP h (last urls), map HttpGet urls)
      | Some url \<Rightarrow> (fetchIP h url, map HttpGet (takeWhile (\<lambda>x. \<not> answers h x) urls @ [url])))"
proof (induction urls arbitrary: ip)
  case Nil
  then show ?case by simp
next
  case (Cons url urls)
  show ?case
  proof (cases "answers h url")
    case True
    then have "refresh_loop h (fetchIP h url) urls = (fetchIP h url, [])"
      using refresh_loop_stops[of "fetchIP h url" h urls] by (simp add: answers_def)
    with True Cons.prems show ?thesis by auto
  next
    case False
    then have "fetchIP h url = None \<or> fetchIP h url = Some []" by (auto simp: answers_def)
    from Cons.IH[OF this] False Cons.prems show ?thesis by (auto split: option.splits)
  qed
qed

lemma find_answers: "find (answers h) urls = Some url \<Longrightarrow> answers h url"
  by (auto simp: find_Some_iff)

lemma find_no_answer: "find (answers h) urls = None \<Longrightarrow> urls \<noteq> [] \<Longrightarrow> \<not> answers h (last urls)"
  by (simp add: find_None_iff)

lemma refreshIP_find:
  "refreshIP h now u c =
     (case find (answers h) (ip_urls u) of
        None \<Rightarrow> (Inl (Exception ''Could not refresh public IP''), u, c, map HttpGet (ip_urls u))
      | Some url \<Rightarrow>
          (Inr (), u\<lparr>currentIP := fetchIP h url, fresh := True\<rparr>,
           cache_save (cache_set (cache_set c ''lastip'' (JStr (the (fetchIP h url))))
                                 ''lastipchecktime'' (JNum now)),
           map HttpGet (takeWhile (\<lambda>x. \<not> answers h x) (ip_urls u) @ [url])))"
proof (cases "find (answers h) (ip_urls u)")
  case None
  show ?thesis
  proof (cases "ip_urls u = []")
    case True
    then show ?thesis by (simp add: refreshIP_def)
  next
    case False
    with find_no_answer[OF None]
    have "fetchIP h (last (ip_urls u)) = None \<or> fetchIP h (last (ip_urls u)) = Some []"
      by (auto simp: answers_def)
    with None False show ?thesis
      by (auto simp: refreshIP_def refresh_loop_find)
  qed
next
  case (Some url)
  from find_answers[OF Some] obtain a where "fetchIP h url = Some a" "a \<noteq> []"
    by (auto simp: answers_def)
  with Some show ?thesis
    by (simp add: refreshIP_def refresh_loop_find)
qed

lemma refreshIP_cache_other:
  assumes "k \<noteq> ''lastip''" "k \<noteq> ''lastipchecktime''"
  shows "cache_get (fst (snd (snd (refreshIP h t u c)))) k = cache_get c k"
  using assms
  by (simp add: refreshIP_def cache_get_save cache_get_set split: prod.splits option.splits)

lemma getIP_effects:
  "snd (getIP h now u c) =
     (if \<not> (fresh u \<and> currentIP u \<noteq> None \<and> currentIP u \<noteq> Some [])
         \<and> (truthy (cache_get c ''lastipchecktime'') \<longrightarrow>
              (\<exists>t. as_number (cache_get c ''lastipchecktime'') = Some t
                 \<and> t + real_of_int (maxcachetime u) \<le> now))
      then snd (refreshIP h now u c) else (u, c, []))"
  by (cases "refreshIP h now u c"; cases "fst (refreshIP h now u c)")
     (auto simp: getIP_def Let_def split: option.splits)

lemma getIP_cache_other:
  assumes "k \<noteq> ''lastip''" "k \<noteq> ''lastipchecktime''"
  shows "cache_get (fst (snd (snd (getIP h t u c)))) k = cache_get c k"
  using refreshIP_cache_other[OF assms, of h t u c]
  by (simp add: getIP_effects)

lemma getIP_bastion:
  "getIP h t u c = (a, u', c', evs) \<Longrightarrow> cache_get c' ''bastion_ips'' = cache_get c ''bastion_ips''"
  using getIP_cache_other[of "''bastion_ips''" h t u c] by simp

section \<open>The freshness check\<close>

text \<open>
  Claim C1, as amended. \<open>check_fresh_cert\<close> returns true exactly when the certificate
  file exists, its age is below \<open>certlifetime - 15\<close>, the age is below
  \<open>ipcachelifetime\<close> or the cached \<open>certip\<close> equals the IP that \<open>UserIP.getIP\<close>
  returns, and the bastion list is \<open>None\<close> or equals the cached \<open>bastion_ips\<close>. It
  raises exactly when the file exists, the age is below \<open>certlifetime - 15\<close> but not
  below \<open>ipcachelifetime\<close>, and \<open>getIP\<close> raises. In every other case it returns false.
\<close>

theorem check_fresh_cert_decision:
  fixes http_get now cert_mtime cfg c u ip_list
  defines "r \<equiv> fst (check_fresh_cert http_get now cert_mtime cfg c u ip_list)"
  defines "A \<equiv> (\<exists>mtime. cert_mtime = Some mtime
         \<and> now - mtime < real_of_int (certlifetime cfg - 15)
         \<and> (now - mtime < real_of_int (ipcachelifetime cfg)
              \<or> fst (getIP http_get now u c) = Inr (cache_get c ''certip''))
         \<and> (ip_list = JNull \<or> ip_list = cache_get c ''bastion_ips''))"
  defines "B \<equiv> (\<exists>mtime. cert_mtime = Some mtime
         \<and> now - mtime < real_of_int (certlifetime cfg - 15)
         \<and> \<not> now - mtime < real_of_int (ipcachelifetime cfg)
         \<and> (\<exists>e. fst (getIP http_get now u c) = Inl e))"
  shows "(r = Inr True \<longleftrightarrow> A) \<and> ((\<exists>e. r = Inl e) \<longleftrightarrow> B) \<and> (r = Inr False \<longleftrightarrow> \<not> A \<and> \<not> B)"
proof -
  obtain a u' c' evs where g: "getIP http_get now u c = (a, u', c', evs)"
    by (cases "getIP http_get now u c") auto
  have t: "r = Inr True \<longleftrightarrow> A"
    unfolding r_def A_def check_fresh_cert_def Let_def g
    using getIP_bastion[OF g]
    by (cases cert_mtime; cases a) auto
  have e: "(\<exists>e. r = Inl e) \<longleftrightarrow> B"
    unfolding r_def B_def check_fresh_cert_def Let_def g
    by (cases cert_mtime; cases a) auto
  have "r = Inr False \<longleftrightarrow> \<not> (r = Inr True) \<and> \<not> (\<exists>e. r = Inl e)"
    by (cases r) auto
  with t e show ?thesis by simp
qed

text \<open>
  A certificate written 100 seconds ago, inside both windows, with no bastion list:
  the check returns true.
\<close>

theorem check_fresh_cert_decision_witness:
  "fst (check_fresh_cert (map_of []) 100 (Some 0) \<lparr>certlifetime = 3600, ipcachelifetime = 120\<rparr>
        (get_bless_cache example_load False []) (UserIP 120 [''https://checkip.example''] None) JNull)
   = Inr True"
  using check_fresh_cert_decision[where http_get = "map_of []" and now = 100
      and cert_mtime = "Some 0" and cfg = "\<lparr>certlifetime = 3600, ipcachelifetime = 120\<rparr>"
      and c = "get_bless_cache example_load False []" and u = "UserIP 120 [''https://checkip.example''] None"
      and ip_list = JNull]
  by simp

text \<open>
  The claim as stated fails: a certificate 1000 seconds old, past the IP window of 120
  seconds and inside its lifetime, with no IP record cached and an endpoint that does
  not answer. The check neither returns true nor false: the exception of
  \<open>_refreshIP\<close> leaves it.
\<close>

theorem check_fresh_cert_raises:
  "fst (check_fresh_cert (map_of []) 1000 (Some 0) \<lparr>certlifetime = 3600, ipcachelifetime = 120\<rparr>
        (get_bless_cache example_load False []) (UserIP 120 [''https://checkip.example''] None) JNull)
   = Inl (Exception ''Could not refresh public IP'')"
  by (simp add: check_fresh_cert_def getIP_def refreshIP_def fetchIP_def UserIP_def
        get_bless_cache_def example_load_def cache_get_def)

text \<open>
  Claim C5, as amended. \<open>check_fresh_cert\<close> leaves the resolver and the cache as they
  are and sends no request, unless the certificate file exists, its age is below
  \<open>certlifetime - 15\<close> and not below \<open>ipcachelifetime\<close>, the resolver holds no fresh
  address, and the cached IP record is missing or at least \<open>maxcachetime\<close> old. In
  that case it runs \<open>UserIP._refreshIP\<close>: the endpoints are asked in order up to the
  first that answers with a non-empty address. When none answers, every endpoint has
  been asked, the check raises and the resolver and the cache are unchanged. When one
  answers, the resolver holds its address as fresh, and the address and the time are
  set in the cache under \<open>lastip\<close> and \<open>lastipchecktime\<close> and saved to the cache file.
\<close>

theorem check_fresh_cert_effects:
  fixes http_get now cert_mtime cfg c u ip_list
  defines "asks \<equiv>
     (\<exists>mtime. cert_mtime = Some mtime
        \<and> now - mtime < real_of_int (certlifetime cfg - 15)
        \<and> \<not> now - mtime < real_of_int (ipcachelifetime cfg))
     \<and> \<not> (fresh u \<and> currentIP u \<noteq> None \<and> currentIP u \<noteq> Some [])
     \<and> (truthy (cache_get c ''lastipchecktime'') \<longrightarrow>
          (\<exists>t. as_number (cache_get c ''lastipchecktime'') = Some t
             \<and> t + real_of_int (maxcachetime u) \<le> now))"
  defines "r \<equiv> check_fresh_cert http_get now cert_mtime cfg c u ip_list"
  defines "written \<equiv> (\<lambda>a. cache_save (cache_set (cache_set c ''lastip'' (JStr a))
                                               ''lastipchecktime'' (JNum now)))"
  shows "(\<not> asks \<longrightarrow> snd r = (u, c, []))
       \<and> (asks \<and> find (answers http_get) (ip_urls u) = None \<longrightarrow>
            r = (Inl (Exception ''Could not refresh public IP''), u, c, map HttpGet (ip_urls u)))
       \<and> (\<forall>url a. asks \<and> find (answers http_get) (ip_urls u) = Some url
                     \<and> fetchIP http_get url = Some a \<longrightarrow>
            snd r = (u\<lparr>currentIP := Some a, fresh := True\<rparr>, written a,
                     map HttpGet (takeWhile (\<lambda>x. \<not> answers http_get x) (ip_urls u) @ [url])))
       \<and> (\<forall>a. cache_get (written a) ''lastip'' = JStr a
                \<and> cache_get (written a) ''lastipchecktime'' = JNum now
                \<and> saved (written a) = entries (written a)
                \<and> map_of (saved (written a)) ''lastip'' = Some (JStr a)
                \<and> map_of (saved (written a)) ''lastipchecktime'' = Some (JNum now))"
proof -
  obtain x u' c' evs where g: "getIP http_get now u c = (x, u', c', evs)"
    by (cases "getIP http_get now u c") auto
  let ?window = "\<exists>mtime. cert_mtime = Some mtime
        \<and> now - mtime < real_of_int (certlifetime cfg - 15)
        \<and> \<not> now - mtime < real_of_int (ipcachelifetime cfg)"
  have s: "snd r = (if ?window then snd (getIP http_get now u c) else (u, c, []))"
    unfolding r_def check_fresh_cert_def Let_def g
    by (cases cert_mtime; cases x) auto
  have f: "\<And>e. ?window \<Longrightarrow> fst (getIP http_get now u c) = Inl e \<Longrightarrow> fst r = Inl e"
    unfolding r_def check_fresh_cert_def Let_def g
    by (cases cert_mtime; cases x) auto
  have quiet: "\<not> asks \<longrightarrow> snd r = (u, c, [])"
    unfolding asks_def s getIP_effects by auto
  have sr: "asks \<Longrightarrow> snd r = snd (refreshIP http_get now u c)"
    unfolding asks_def s getIP_effects by auto
  have fails: "asks \<and> find (answers http_get) (ip_urls u) = None \<longrightarrow>
      r = (Inl (Exception ''Could not refresh public IP''), u, c, map HttpGet (ip_urls u))"
  proof (intro impI, elim conjE)
    assume a: asks and n: "find (answers http_get) (ip_urls u) = None"
    from n have rf: "refreshIP http_get now u c =
        (Inl (Exception ''Could not refresh public IP''), u, c, map HttpGet (ip_urls u))"
      by (simp add: refreshIP_find)
    from a have w: ?window by (simp add: asks_def)
    from a rf have gi: "getIP http_get now u c =
        (Inl (Exception ''Could not refresh public IP''), u, c, map HttpGet (ip_urls u))"
      unfolding asks_def getIP_def Let_def by (auto split: option.splits)
    from f[OF w, of "Exception ''Could not refresh public IP''"] gi
    have "fst r = Inl (Exception ''Could not refresh public IP'')" by simp
    moreover from sr[OF a] rf have "snd r = (u, c, map HttpGet (ip_urls u))" by simp
    ultimately show "r = (Inl (Exception ''Could not refresh public IP''), u, c, map HttpGet (ip_urls u))"
      by (cases r) simp
  qed
  have succeeds: "\<forall>url a. asks \<and> find (answers http_get) (ip_urls u) = Some url
                     \<and> fetchIP http_get url = Some a \<longrightarrow>
            snd r = (u\<lparr>currentIP := Some a, fresh := True\<rparr>, written a,
                     map HttpGet (takeWhile (\<lambda>x. \<not> answers http_get x) (ip_urls u) @ [url]))"
    using sr by (auto simp: refreshIP_find written_def)
  have stored: "\<forall>a. cache_get (written a) ''lastip'' = JStr a
                \<and> cache_get (written a) ''lastipchecktime'' = JNum now
                \<and> saved (written a) = entries (written a)
                \<and> map_of (saved (written a)) ''lastip'' = Some (JStr a)
                \<and> map_of (saved (written a)) ''lastipchecktime'' = Some (JNum now)"
    by (simp add: written_def cache_get_save cache_get_set)
       (simp add: cache_save_def cache_set_def map_of_upd)
  from quiet fails succeeds stored show ?thesis by blast
qed

text \<open>
  A certificate 1000 seconds old, past the IP window of 120 seconds, with no IP record
  cached and two endpoints of which the second answers: both are asked, and the address
  and its time are in the cache and in the cache file afterwards.
\<close>

theorem check_fresh_cert_effects_witness:
  "snd (check_fresh_cert (map_of [(''https://checkip.example'', (200, ''203.0.113.5''))]) 1000 (Some 0)
        \<lparr>certlifetime = 3600, ipcachelifetime = 120\<rparr>
        (get_bless_cache example_load False [])
        (UserIP 120 [''https://down.example'', ''https://checkip.example''] None) JNull)
   = (\<lparr>fresh = True, currentIP = Some ''203.0.113.5'', maxcachetime = 120,
       ip_urls = [''https://down.example'', ''https://checkip.example'']\<rparr>,
      \<lparr>mode = CACHEMODE_ENABLED,
       entries = [(''lastip'', JStr ''203.0.113.5''), (''lastipchecktime'', JNum 1000)],
       saved = [(''lastip'', JStr ''203.0.113.5''), (''lastipchecktime'', JNum 1000)]\<rparr>,
      [HttpGet ''https://down.example'', HttpGet ''https://checkip.example''])"
  using check_fresh_cert_effects[where http_get = "map_of [(''https://checkip.example'', (200, ''203.0.113.5''))]"
      and now = 1000 and cert_mtime = "Some 0"
      and cfg = "\<lparr>certlifetime = 3600, ipcachelifetime = 120\<rparr>"
      and c = "get_bless_cache example_load False []"
      and u = "UserIP 120 [''https://down.example'', ''https://checkip.example''] None"
      and ip_list = JNull, THEN conjunct2, THEN conjunct2, THEN conjunct1, rule_format,
      of "''https://checkip.example''" "''203.0.113.5''"]
  by (simp add: UserIP_def get_bless_cache_def example_load_def cache_get_def cache_set_def cache_save_def
        answers_def fetchIP_def strip_def is_space_def VALID_IP_CHARACTERS_def)

text \<open>
  The claim as stated fails: for a certificate 1000 seconds old, past the IP window of
  120 seconds, with no IP record cached, the check sends a request to the endpoint and
  writes the answer and its time to the cache and to the cache file.
\<close>

theorem check_fresh_cert_asks_and_writes:
  "snd (snd (check_fresh_cert (map_of [(''https://checkip.example'', (200, ''203.0.113.5''))]) 1000 (Some 0)
        \<lparr>certlifetime = 3600, ipcachelifetime = 120\<rparr>
        (get_bless_cache example_load False []) (UserIP 120 [''https://checkip.example''] None) JNull))
   = (\<lparr>mode = CACHEMODE_ENABLED,
       entries = [(''lastip'', JStr ''203.0.113.5''), (''lastipchecktime'', JNum 1000)],
       saved = [(''lastip'', JStr ''203.0.113.5''), (''lastipchecktime'', JNum 1000)]\<rparr>,
      [HttpGet ''https://checkip.example''])"
  by (simp add: check_fresh_cert_def getIP_def refreshIP_def fetchIP_def UserIP_def get_bless_cache_def example_load_def
        cache_get_def cache_set_def cache_save_def strip_def is_space_def VALID_IP_CHARACTERS_def)

section \<open>The ring of regions\<close>

lemma index_of_lt: "index_of xs x = Some i \<Longrightarrow> i < length xs \<and> xs ! i = x"
  by (induction xs arbitrary: i) (auto split: if_splits)

lemma index_of_None: "index_of xs x = None \<longleftrightarrow> x \<notin> set xs"
  by (induction xs) auto

lemma start_index_lt: "aws \<noteq> [] \<Longrightarrow> start_index region aws < length aws"
  using index_of_lt[of aws region] by (auto simp: start_index_def split: option.splits)

lemma start_index_nth: "region \<in> set aws \<Longrightarrow> aws ! start_index region aws = region"
  using index_of_lt[of aws region] index_of_None[of aws region]
  by (auto simp: start_index_def split: option.splits)

lemma start_index_absent: "region \<notin> set aws \<Longrightarrow> start_index region aws = 0"
  using index_of_None[of aws region] by (simp add: start_index_def)

lemma take_Suc_rotate:
  assumes "ndx < length xs" "k < length xs"
  shows "take (Suc k) (rotate ndx xs) = xs ! ndx # take k (rotate ((ndx + 1) mod length xs) xs)"
proof -
  have ne: "xs \<noteq> []" using assms by auto
  obtain y ys where r: "rotate ndx xs = y # ys"
    using ne by (cases "rotate ndx xs") auto
  have y: "y = xs ! ndx"
    using hd_rotate_conv_nth[OF ne, of ndx] r assms by simp
  have l: "length ys = length xs - 1"
    using arg_cong[OF r, of length] by simp
  have "rotate ((ndx + 1) mod length xs) xs = rotate (Suc ndx) xs"
    by (simp add: rotate_conv_mod[symmetric])
  also have "\<dots> = ys @ [y]" by (simp add: r)
  finally show ?thesis using r y l assms by simp
qed

lemma get_regions_loop_rotate:
  "length regions \<le> length aws \<Longrightarrow> ndx < length aws \<Longrightarrow>
   get_regions_loop aws regions ndx = regions @ take (length aws - length regions) (rotate ndx aws)"
proof (induction aws regions ndx rule: get_regions_loop.induct)
  case (1 aws regions ndx)
  show ?case
  proof (cases "length regions < length aws")
    case True
    have k: "length aws - length regions = Suc (length aws - Suc (length regions))"
      using True by simp
    have "get_regions_loop aws regions ndx
        = get_regions_loop aws (regions @ [aws ! ndx]) ((ndx + 1) mod length aws)"
      using True by (subst get_regions_loop.simps) simp
    also have "\<dots> = (regions @ [aws ! ndx])
        @ take (length aws - length (regions @ [aws ! ndx])) (rotate ((ndx + 1) mod length aws) aws)"
    proof -
      have "0 < length aws" using True by linarith
      then have "(ndx + 1) mod length aws < length aws" by simp
      then show ?thesis using "1.IH"[OF True] True by simp
    qed
    also have "\<dots> = regions @ take (length aws - length regions) (rotate ndx aws)"
      using take_Suc_rotate[OF "1.prems"(2), of "length aws - Suc (length regions)"] True
      by (simp add: k del: take_Suc)
    finally show ?thesis .
  next
    case False
    then show ?thesis using "1.prems" by (subst get_regions_loop.simps) simp
  qed
qed

lemma mset_rotate_same: "mset (rotate n xs) = mset xs"
proof -
  let ?k = "n mod length xs"
  have "mset (rotate n xs) = mset (drop ?k xs) + mset (take ?k xs)"
    by (simp add: rotate_drop_take)
  also have "\<dots> = mset (take ?k xs @ drop ?k xs)"
    by (simp only: mset_append add.commute)
  finally show ?thesis by simp
qed

lemma get_regions_rotate:
  "get_regions region al = rotate (start_index region (sort (map snd al))) (sort (map snd al))"
proof (cases "al = []")
  case True
  then show ?thesis by (simp add: get_regions_def get_regions_loop.simps)
next
  case False
  let ?s = "sort (map snd al)"
  have n: "?s \<noteq> []" using False by (metis length_0_conv length_map length_sort)
  show ?thesis
    using get_regions_loop_rotate[of "[]" ?s, OF _ start_index_lt[OF n]]
    by (simp add: get_regions_def Let_def)
qed

text \<open>
  Claim C2, as amended. For every configuration and every starting region,
  \<open>get_regions\<close> returns the sorted list of the regions of all aliases, rotated to
  start at the first position of the starting region (at position 0 when it is not
  configured). The result is a permutation of the configured values, it starts with the
  starting region when that is configured and with the first sorted region otherwise,
  and each entry is followed by its successor in the sorted ring. When the aliases name
  pairwise different regions, the result holds every configured region exactly once.
\<close>

theorem get_regions_ring:
  fixes region REGION_ALIAS
  defines "aws \<equiv> sort (map snd REGION_ALIAS)"
  defines "regions \<equiv> get_regions region REGION_ALIAS"
  shows "regions = rotate (start_index region aws) aws
       \<and> mset regions = mset (map snd REGION_ALIAS)
       \<and> (region \<in> snd ` set REGION_ALIAS \<longrightarrow> hd regions = region)
       \<and> (region \<notin> snd ` set REGION_ALIAS \<and> REGION_ALIAS \<noteq> [] \<longrightarrow> hd regions = hd aws)
       \<and> (\<forall>i < length regions.
             regions ! i = aws ! ((start_index region aws + i) mod length aws)
           \<and> regions ! ((i + 1) mod length regions)
               = aws ! (((start_index region aws + i) mod length aws + 1) mod length aws))
       \<and> (distinct (map snd REGION_ALIAS) \<longrightarrow>
             distinct regions \<and> set regions = snd ` set REGION_ALIAS)"
proof -
  have r: "regions = rotate (start_index region aws) aws"
    unfolding regions_def aws_def by (rule get_regions_rotate)
  have sa: "set aws = snd ` set REGION_ALIAS" by (simp add: aws_def)
  have m: "mset regions = mset (map snd REGION_ALIAS)"
    by (simp add: r aws_def mset_rotate_same)
  have h1: "region \<in> snd ` set REGION_ALIAS \<longrightarrow> hd regions = region"
  proof
    assume a: "region \<in> snd ` set REGION_ALIAS"
    then have ne: "aws \<noteq> []" using sa by auto
    have "hd regions = aws ! (start_index region aws mod length aws)"
      unfolding r by (rule hd_rotate_conv_nth[OF ne])
    also have "\<dots> = aws ! start_index region aws"
      using start_index_lt[OF ne, of region] by simp
    also have "\<dots> = region" using a sa start_index_nth[of region aws] by simp
    finally show "hd regions = region" .
  qed
  have h2: "region \<notin> snd ` set REGION_ALIAS \<and> REGION_ALIAS \<noteq> [] \<longrightarrow> hd regions = hd aws"
    using start_index_absent[of region aws] sa by (auto simp: r)
  have n: "\<forall>i < length regions.
             regions ! i = aws ! ((start_index region aws + i) mod length aws)
           \<and> regions ! ((i + 1) mod length regions)
               = aws ! (((start_index region aws + i) mod length aws + 1) mod length aws)"
  proof (intro allI impI)
    fix i assume i: "i < length regions"
    then have l: "i < length aws" by (simp add: r)
    then have "0 < length aws" by linarith
    then have l2: "(i + 1) mod length aws < length aws" by simp
    have a: "regions ! i = aws ! ((start_index region aws + i) mod length aws)"
      unfolding r using l by (simp add: nth_rotate)
    have "regions ! ((i + 1) mod length regions)
        = aws ! ((start_index region aws + (i + 1) mod length aws) mod length aws)"
      unfolding r using l2 by (simp add: nth_rotate)
    also have "(start_index region aws + (i + 1) mod length aws) mod length aws
        = ((start_index region aws + i) mod length aws + 1) mod length aws"
      by (metis add.assoc mod_add_left_eq mod_add_right_eq)
    finally show "regions ! i = aws ! ((start_index region aws + i) mod length aws)
           \<and> regions ! ((i + 1) mod length regions)
               = aws ! (((start_index region aws + i) mod length aws + 1) mod length aws)"
      using a by simp
  qed
  have d: "distinct (map snd REGION_ALIAS) \<longrightarrow>
             distinct regions \<and> set regions = snd ` set REGION_ALIAS"
    by (simp add: r aws_def)
  from r m h1 h2 n d show ?thesis by blast
qed

text \<open>Three aliases for three regions, started at the last of the sorted ring.\<close>

lemma sort_three_regions:
  "sort (map snd [(''WEST'', ''us-west-2''), (''EAST'', ''us-east-1''), (''EU'', ''eu-west-1'')])
     = [''eu-west-1'', ''us-east-1'', ''us-west-2'']"
  by code_simp

theorem get_regions_ring_witness:
  "distinct (map snd [(''WEST'', ''us-west-2''), (''EAST'', ''us-east-1''), (''EU'', ''eu-west-1'')])
   \<and> get_regions ''us-west-2'' [(''WEST'', ''us-west-2''), (''EAST'', ''us-east-1''), (''EU'', ''eu-west-1'')]
     = [''us-west-2'', ''eu-west-1'', ''us-east-1'']"
  using get_regions_ring[of "''us-west-2''" "[(''WEST'', ''us-west-2''), (''EAST'', ''us-east-1''), (''EU'', ''eu-west-1'')]"]
  by (simp add: sort_three_regions start_index_def)

text \<open>
  The claim as stated fails: two aliases that name the same region make the ring hold
  that region twice.
\<close>

theorem get_regions_repeats:
  "get_regions ''us-east-1'' [(''EAST'', ''us-east-1''), (''IAD'', ''us-east-1'')]
     = [''us-east-1'', ''us-east-1'']
   \<and> \<not> distinct (get_regions ''us-east-1'' [(''EAST'', ''us-east-1''), (''IAD'', ''us-east-1'')])"
  by (simp add: get_regions_rotate start_index_def)

section \<open>Expiration of cached credentials and tokens\<close>

text \<open>
  The comparison of a parsed expiration with \<open>time.gmtime()\<close> is a comparison of
  tuples of nine fields; it is the strict order of the six calendar fields, since for
  equal calendar fields the DST flag -1 of the parsed time is below the flag 0 of the
  current time.
\<close>

lemma struct_time_gt:
  "struct_time_of L a (- 1) > struct_time_of L b 0 \<longleftrightarrow> a > b"
  by (cases a; cases b) (auto simp: struct_time_of_def split: prod.splits)

lemma strptime_gt_gmtime:
  "strptime_fields L s = Some expn \<Longrightarrow>
   (\<exists>e. time_strptime L s = Some e \<and> (e > time_gmtime L utcnow \<longleftrightarrow> utcnow < expn))"
  by (simp add: time_strptime_def time_gmtime_def struct_time_gt)

lemma strptime_None: "strptime_fields L s = None \<Longrightarrow> time_strptime L s = None"
  by (simp add: time_strptime_def)

lemma uncache_creds_parsed:
  assumes "cache_v = JObj kvs" "map_of kvs ''Expiration'' = Some (JStr s)" "strptime_fields L s = Some expn"
  shows "uncache_creds L cache_v = Inr (ParsedCreds kvs (struct_time_of L expn (- 1)))"
proof -
  have "kvs \<noteq> []" using assms(2) by auto
  then show ?thesis using assms by (simp add: uncache_creds_def time_strptime_def)
qed

text \<open>
  Claim C6. \<open>get_blessrole_credentials\<close> returns the cached credential, with no
  request sent and the cache as it was, exactly when the cache holds a
  \<open>blessrole_creds\<close> entry whose expiration is strictly after the current time. With
  an expiration equal to or before the current time it does what it does with no entry
  at all: it goes on to the role assumption, and the \<open>assume_role\<close> call is made
  whenever the STS client can be made (no base credentials, or base credentials with
  their three keys) and the caller's identity is in the cache or the identity lookup
  answers.
\<close>

theorem get_blessrole_credentials_expiry:
  fixes L A utcnow base_creds lambda_conf c
  defines "r \<equiv> get_blessrole_credentials L A utcnow base_creds lambda_conf c"
  defines "refresh \<equiv> assume_blessrole L A base_creds lambda_conf c"
  shows "((\<exists>cr. fst r = Inr (Cached cr)) \<longleftrightarrow>
            (\<exists>kvs s expn. cache_get c ''blessrole_creds'' = JObj kvs
               \<and> map_of kvs ''Expiration'' = Some (JStr s)
               \<and> strptime_fields L s = Some expn \<and> utcnow < expn))
       \<and> (\<forall>kvs s expn. cache_get c ''blessrole_creds'' = JObj kvs
               \<and> map_of kvs ''Expiration'' = Some (JStr s)
               \<and> strptime_fields L s = Some expn \<and> utcnow < expn
             \<longrightarrow> r = (Inr (Cached (ParsedCreds kvs (struct_time_of L expn (- 1)))), c, []))
       \<and> (\<forall>kvs s expn. cache_get c ''blessrole_creds'' = JObj kvs
               \<and> map_of kvs ''Expiration'' = Some (JStr s)
               \<and> strptime_fields L s = Some expn \<and> expn \<le> utcnow
             \<longrightarrow> r = refresh)
       \<and> (cache_get c ''blessrole_creds'' = JNull \<longrightarrow> r = refresh)
       \<and> ((base_creds = JNull
              \<or> (\<exists>kvs. base_creds = JObj kvs \<and> map_of kvs ''AccessKeyId'' \<noteq> None
                     \<and> map_of kvs ''SecretAccessKey'' \<noteq> None \<and> map_of kvs ''SessionToken'' \<noteq> None))
            \<and> (truthy (cache_get c ''userarn'') \<or> (\<exists>u. iam_get_user A = Inr u))
             \<longrightarrow> (\<exists>arn. AssumeRole arn \<in> set (snd (snd refresh))))"
proof -
  have no_cached: "\<And>cr. fst refresh \<noteq> Inr (Cached cr)"
    unfolding refresh_def assume_blessrole_def Let_def
    by (auto split: sum.splits prod.splits)
  have valid: "r = (Inr (Cached (ParsedCreds kvs (struct_time_of L expn (- 1)))), c, [])"
    if "cache_get c ''blessrole_creds'' = JObj kvs" "map_of kvs ''Expiration'' = Some (JStr s)"
       "strptime_fields L s = Some expn" "utcnow < expn" for kvs s expn
    using that uncache_creds_parsed[OF that(1,2,3)]
    by (simp add: r_def get_blessrole_credentials_def creds_unexpired_def time_gmtime_def struct_time_gt)
  have expired: "r = refresh"
    if "cache_get c ''blessrole_creds'' = JObj kvs" "map_of kvs ''Expiration'' = Some (JStr s)"
       "strptime_fields L s = Some expn" "expn \<le> utcnow" for kvs s expn
  proof -
    have "\<not> utcnow < expn" using that(4) by (simp add: not_less)
    then show ?thesis
      using that uncache_creds_parsed[OF that(1,2,3)]
      by (simp add: r_def refresh_def get_blessrole_credentials_def creds_unexpired_def time_gmtime_def
            struct_time_gt)
  qed
  have absent: "cache_get c ''blessrole_creds'' = JNull \<longrightarrow> r = refresh"
    by (simp add: r_def refresh_def get_blessrole_credentials_def uncache_creds_def creds_unexpired_def)
  have only_if: "\<exists>kvs s expn. cache_get c ''blessrole_creds'' = JObj kvs
               \<and> map_of kvs ''Expiration'' = Some (JStr s)
               \<and> strptime_fields L s = Some expn \<and> utcnow < expn"
    if h: "fst r = Inr (Cached cr)" for cr
  proof (cases "uncache_creds L (cache_get c ''blessrole_creds'')")
    case (Inl e)
    with h show ?thesis by (simp add: r_def get_blessrole_credentials_def)
  next
    case (Inr rc)
    show ?thesis
    proof (cases rc)
      case (RawCreds v)
      with Inr h no_cached[of cr] show ?thesis
        by (auto simp: r_def refresh_def get_blessrole_credentials_def creds_unexpired_def
              split: sum.splits if_splits)
    next
      case (ParsedCreds kvs e)
      from Inr ParsedCreds obtain s expn where
        p: "cache_get c ''blessrole_creds'' = JObj kvs" "map_of kvs ''Expiration'' = Some (JStr s)"
           "strptime_fields L s = Some expn"
        by (auto simp: uncache_creds_def time_strptime_def split: if_splits json.splits option.splits)
      have "utcnow < expn"
      proof (rule ccontr)
        assume "\<not> utcnow < expn"
        then have "r = refresh" using expired[OF p] by simp
        with h no_cached[of cr] show False by simp
      qed
      with p show ?thesis by blast
    qed
  qed
  have calls: "(base_creds = JNull
              \<or> (\<exists>kvs. base_creds = JObj kvs \<and> map_of kvs ''AccessKeyId'' \<noteq> None
                     \<and> map_of kvs ''SecretAccessKey'' \<noteq> None \<and> map_of kvs ''SessionToken'' \<noteq> None))
            \<and> (truthy (cache_get c ''userarn'') \<or> (\<exists>u. iam_get_user A = Inr u))
             \<longrightarrow> (\<exists>arn. AssumeRole arn \<in> set (snd (snd refresh)))"
  proof (intro impI, elim conjE)
    assume b: "base_creds = JNull
              \<or> (\<exists>kvs. base_creds = JObj kvs \<and> map_of kvs ''AccessKeyId'' \<noteq> None
                     \<and> map_of kvs ''SecretAccessKey'' \<noteq> None \<and> map_of kvs ''SessionToken'' \<noteq> None)"
      and u: "truthy (cache_get c ''userarn'') \<or> (\<exists>u. iam_get_user A = Inr u)"
    have client: "mfa_sts_client base_creds = Inr ()"
      using b by (auto simp: mfa_sts_client_def)
    have "\<exists>arn c1 evs. caller_arn A c = (Inr arn, c1, evs)"
      using u by (auto simp: caller_arn_def)
    then obtain arn c1 evs where id: "caller_arn A c = (Inr arn, c1, evs)"
      by blast
    show "\<exists>arn. AssumeRole arn \<in> set (snd (snd refresh))"
      by (auto simp: refresh_def assume_blessrole_def Let_def client id split: sum.splits)
  qed
  show ?thesis
    using valid expired absent only_if calls by (intro conjI iffI allI impI; (elim exE conjE)?) (auto simp: valid)
qed

text \<open>A credential cached until 2030, looked up in 2025, is returned from the cache.\<close>

theorem get_blessrole_credentials_expiry_witness:
  "get_blessrole_credentials example_lib example_aws (2025, 6, 1, 12, 0, 0) JNull
      \<lparr>userrole = ''use-bless'', accountid = ''123456789012''\<rparr>
      (get_bless_cache example_load False
         [(''blessrole_creds'', JObj [(''AccessKeyId'', JStr ''ASIAOLD''),
                                      (''Expiration'', JStr ''20300101T000000Z'')])])
   = (Inr (Cached (ParsedCreds [(''AccessKeyId'', JStr ''ASIAOLD''),
                                (''Expiration'', JStr ''20300101T000000Z'')]
                     (2030, 1, 1, 0, 0, 0, 0, 1, - 1))),
      get_bless_cache example_load False
         [(''blessrole_creds'', JObj [(''AccessKeyId'', JStr ''ASIAOLD''),
                                      (''Expiration'', JStr ''20300101T000000Z'')])],
      [])"
  using get_blessrole_credentials_expiry[where L = example_lib and A = example_aws
      and utcnow = "(2025, 6, 1, 12, 0, 0)" and base_creds = JNull
      and lambda_conf = "\<lparr>userrole = ''use-bless'', accountid = ''123456789012''\<rparr>"
      and c = "get_bless_cache example_load False
         [(''blessrole_creds'', JObj [(''AccessKeyId'', JStr ''ASIAOLD''),
                                      (''Expiration'', JStr ''20300101T000000Z'')])]",
      THEN conjunct2, THEN conjunct1, rule_format,
      of "[(''AccessKeyId'', JStr ''ASIAOLD''), (''Expiration'', JStr ''20300101T000000Z'')]"
         "''20300101T000000Z''" "(2030, 1, 1, 0, 0, 0)"]
  by (simp add: get_bless_cache_def example_load_def cache_get_def example_lib_def struct_time_of_def)

text \<open>
  Claim C7, as amended. A cached entry whose expiration is missing or unparsable is
  never returned as valid, but it is not treated as absent either: in
  \<open>get_blessrole_credentials\<close> and in \<open>get_kmsauth_token\<close> a non-empty entry without
  \<open>Expiration\<close> raises KeyError and an \<open>Expiration\<close> that \<open>strptime\<close> rejects raises
  ValueError, with the cache unchanged and no request sent. Only an empty entry is
  treated as absent.
\<close>

theorem expiration_missing_or_unparsable:
  "(kvs \<noteq> [] \<and> map_of kvs ''Expiration'' = None \<and> cache_get c ''blessrole_creds'' = JObj kvs
      \<longrightarrow> get_blessrole_credentials L A utcnow base_creds lambda_conf c
            = (Inl (KeyError ''Expiration''), c, []))
 \<and> (map_of kvs ''Expiration'' = Some (JStr s) \<and> strptime_fields L s = None
        \<and> cache_get c ''blessrole_creds'' = JObj kvs
      \<longrightarrow> get_blessrole_credentials L A utcnow base_creds lambda_conf c = (Inl ValueError, c, []))
 \<and> (cache_get c ''blessrole_creds'' = JObj []
      \<longrightarrow> get_blessrole_credentials L A utcnow base_creds lambda_conf c
            = assume_blessrole L A base_creds lambda_conf c)
 \<and> (kvs \<noteq> [] \<and> map_of kvs ''Expiration'' = None \<and> cache_get c (kmsauth_cache_key config) = JObj kvs
      \<longrightarrow> get_kmsauth_token L TOKEN_SKEW mint utcnow base_creds config user c
            = (Inl (KeyError ''Expiration''), c, []))
 \<and> (map_of kvs ''Expiration'' = Some (JStr s) \<and> strptime_fields L s = None
        \<and> cache_get c (kmsauth_cache_key config) = JObj kvs
      \<longrightarrow> get_kmsauth_token L TOKEN_SKEW mint utcnow base_creds config user c
            = (Inl ValueError, c, []))
 \<and> (cache_get c (kmsauth_cache_key config) = JObj []
      \<longrightarrow> cached_kmsauth_token L utcnow (cache_get c (kmsauth_cache_key config)) = Inr None)"
proof -
  have a: "kvs \<noteq> [] \<and> map_of kvs ''Expiration'' = None \<and> cache_get c ''blessrole_creds'' = JObj kvs
      \<longrightarrow> get_blessrole_credentials L A utcnow base_creds lambda_conf c
            = (Inl (KeyError ''Expiration''), c, [])"
    by (simp add: get_blessrole_credentials_def uncache_creds_def creds_unexpired_def)
  have b: "map_of kvs ''Expiration'' = Some (JStr s) \<and> strptime_fields L s = None
        \<and> cache_get c ''blessrole_creds'' = JObj kvs
      \<longrightarrow> get_blessrole_credentials L A utcnow base_creds lambda_conf c = (Inl ValueError, c, [])"
    by (auto simp: get_blessrole_credentials_def uncache_creds_def time_strptime_def)
  have e: "cache_get c ''blessrole_creds'' = JObj []
      \<longrightarrow> get_blessrole_credentials L A utcnow base_creds lambda_conf c
            = assume_blessrole L A base_creds lambda_conf c"
    by (simp add: get_blessrole_credentials_def uncache_creds_def creds_unexpired_def)
  have k: "kvs \<noteq> [] \<and> map_of kvs ''Expiration'' = None \<and> cache_get c (kmsauth_cache_key config) = JObj kvs
      \<longrightarrow> get_kmsauth_token L TOKEN_SKEW mint utcnow base_creds config user c
            = (Inl (KeyError ''Expiration''), c, [])"
    by (simp add: get_kmsauth_token_def cached_kmsauth_token_def Let_def)
  have l: "map_of kvs ''Expiration'' = Some (JStr s) \<and> strptime_fields L s = None
        \<and> cache_get c (kmsauth_cache_key config) = JObj kvs
      \<longrightarrow> get_kmsauth_token L TOKEN_SKEW mint utcnow base_creds config user c
            = (Inl ValueError, c, [])"
  proof (intro impI, elim conjE)
    assume h: "map_of kvs ''Expiration'' = Some (JStr s)" "strptime_fields L s = None"
      "cache_get c (kmsauth_cache_key config) = JObj kvs"
    from h(1) have "kvs \<noteq> []" by auto
    with h show "get_kmsauth_token L TOKEN_SKEW mint utcnow base_creds config user c
            = (Inl ValueError, c, [])"
      by (simp add: get_kmsauth_token_def cached_kmsauth_token_def time_strptime_def Let_def)
  qed
  have m: "cache_get c (kmsauth_cache_key config) = JObj []
      \<longrightarrow> cached_kmsauth_token L utcnow (cache_get c (kmsauth_cache_key config)) = Inr None"
    by (simp add: cached_kmsauth_token_def)
  from a b e k l m show ?thesis by blast
qed

text \<open>An expiration written with dashes and colons: the lookup raises ValueError.\<close>

theorem expiration_missing_or_unparsable_witness:
  "get_blessrole_credentials example_lib example_aws (2025, 6, 1, 12, 0, 0) JNull
      \<lparr>userrole = ''use-bless'', accountid = ''123456789012''\<rparr>
      (get_bless_cache example_load False
         [(''blessrole_creds'', JObj [(''AccessKeyId'', JStr ''ASIAOLD''),
                                      (''Expiration'', JStr ''2030-01-01 00:00:00'')])])
   = (Inl ValueError,
      get_bless_cache example_load False
         [(''blessrole_creds'', JObj [(''AccessKeyId'', JStr ''ASIAOLD''),
                                      (''Expiration'', JStr ''2030-01-01 00:00:00'')])],
      [])"
  using expiration_missing_or_unparsable[where L = example_lib and A = example_aws
      and utcnow = "(2025, 6, 1, 12, 0, 0)" and base_creds = JNull
      and lambda_conf = "\<lparr>userrole = ''use-bless'', accountid = ''123456789012''\<rparr>"
      and c = "get_bless_cache example_load False
         [(''blessrole_creds'', JObj [(''AccessKeyId'', JStr ''ASIAOLD''),
                                      (''Expiration'', JStr ''2030-01-01 00:00:00'')])]"
      and kvs = "[(''AccessKeyId'', JStr ''ASIAOLD''), (''Expiration'', JStr ''2030-01-01 00:00:00'')]"
      and s = "''2030-01-01 00:00:00''",
      THEN conjunct2, THEN conjunct1]
  by (simp add: get_bless_cache_def example_load_def cache_get_def example_lib_def)

text \<open>
  The claim as stated fails: a cached token entry without \<open>Expiration\<close> makes
  \<open>get_kmsauth_token\<close> fail with KeyError; no token is minted.
\<close>

theorem kmsauth_lookup_raises_keyerror:
  "get_kmsauth_token example_lib 3 example_mint (2025, 6, 1, 12, 0, 0) JNull
      \<lparr>kmskey = ''alias/bless'', kms_context = [(''to'', ''bless'')], awsregion = ''us-east-1''\<rparr>
      ''alice''
      (get_bless_cache example_load False [(''kmsauth-us-east-1'', JObj [(''token'', JStr ''abc'')])])
   = (Inl (KeyError ''Expiration''),
      get_bless_cache example_load False [(''kmsauth-us-east-1'', JObj [(''token'', JStr ''abc'')])],
      [])"
  by (simp add: get_kmsauth_token_def cached_kmsauth_token_def kmsauth_cache_key_def
        get_bless_cache_def example_load_def cache_get_def Let_def)

text \<open>
  Claim C8. When \<open>get_kmsauth_token\<close> mints a token (nothing usable is cached and the
  generator answers), a lifetime \<open>60 - 2 * TOKEN_SKEW\<close> of zero or less returns the
  token and leaves the cache exactly as it was; a positive lifetime returns the token
  after the token and its expiration (now plus the lifetime in minutes) have been set
  under the key of the region and saved, the other keys unchanged.
\<close>

theorem get_kmsauth_token_caching:
  assumes "cached_kmsauth_token L utcnow (cache_get c (kmsauth_cache_key config)) = Inr None"
    and "mint base_creds (kmskey config) (upd ''from'' user (kms_context config)) (awsregion config)
           = Inr token"
  shows "(60 - TOKEN_SKEW * 2 \<le> 0 \<longrightarrow>
            get_kmsauth_token L TOKEN_SKEW mint utcnow base_creds config user c
              = (Inr (JStr token), c, [MintToken (awsregion config)]))
       \<and> (60 - TOKEN_SKEW * 2 > 0 \<longrightarrow>
            (\<exists>c'. get_kmsauth_token L TOKEN_SKEW mint utcnow base_creds config user c
                     = (Inr (JStr token), c', [MintToken (awsregion config)])
                 \<and> map_of (entries c') (''kmsauth-'' @ awsregion config)
                     = Some (JObj [(''token'', JStr token),
                                   (''Expiration'',
                                    JStr (strftime L (plus_minutes L utcnow (60 - TOKEN_SKEW * 2))))])
                 \<and> saved c' = entries c'
                 \<and> (\<forall>k. k \<noteq> ''kmsauth-'' @ awsregion config \<longrightarrow>
                        map_of (entries c') k = map_of (entries c) k)))"
  using assms
  by (simp add: get_kmsauth_token_def Let_def kmsauth_cache_key_def cache_save_def cache_set_def
        map_of_upd)

text \<open>
  With a skew of 3 minutes the token is cached with the expiration 54 minutes ahead;
  with a skew of 30 minutes the cache stays empty.
\<close>

theorem get_kmsauth_token_caching_witness:
  "get_kmsauth_token example_lib 3 example_mint (2025, 6, 1, 12, 0, 0) JNull
      \<lparr>kmskey = ''alias/bless'', kms_context = [(''to'', ''bless'')], awsregion = ''us-east-1''\<rparr>
      ''alice'' (get_bless_cache example_load False [])
    = (Inr (JStr ''dG9rZW4=''),
       \<lparr>mode = CACHEMODE_ENABLED,
        entries = [(''kmsauth-us-east-1'',
                    JObj [(''token'', JStr ''dG9rZW4=''), (''Expiration'', JStr ''20250601T125400Z'')])],
        saved = [(''kmsauth-us-east-1'',
                  JObj [(''token'', JStr ''dG9rZW4=''), (''Expiration'', JStr ''20250601T125400Z'')])]\<rparr>,
       [MintToken ''us-east-1''])
   \<and> get_kmsauth_token example_lib 30 example_mint (2025, 6, 1, 12, 0, 0) JNull
      \<lparr>kmskey = ''alias/bless'', kms_context = [(''to'', ''bless'')], awsregion = ''us-east-1''\<rparr>
      ''alice'' (get_bless_cache example_load False [])
    = (Inr (JStr ''dG9rZW4=''), get_bless_cache example_load False [], [MintToken ''us-east-1''])"
proof -
  let ?cfg = "\<lparr>kmskey = ''alias/bless'', kms_context = [(''to'', ''bless'')], awsregion = ''us-east-1''\<rparr>"
  let ?c = "get_bless_cache example_load False []"
  have h1: "cached_kmsauth_token example_lib (2025, 6, 1, 12, 0, 0) (cache_get ?c (kmsauth_cache_key ?cfg)) = Inr None"
    by (simp add: cached_kmsauth_token_def get_bless_cache_def example_load_def cache_get_def)
  have h2: "example_mint JNull (kmskey ?cfg) (upd ''from'' ''alice'' (kms_context ?cfg)) (awsregion ?cfg)
             = Inr ''dG9rZW4=''"
    by (simp add: example_mint_def)
  have neg: "get_kmsauth_token example_lib 30 example_mint (2025, 6, 1, 12, 0, 0) JNull ?cfg ''alice'' ?c
      = (Inr (JStr ''dG9rZW4=''), ?c, [MintToken ''us-east-1''])"
    using get_kmsauth_token_caching[where L = example_lib and mint = example_mint
        and utcnow = "(2025, 6, 1, 12, 0, 0)" and base_creds = JNull and config = ?cfg
        and user = "''alice''" and c = ?c and token = "''dG9rZW4=''" and TOKEN_SKEW = 30] h1 h2
    by simp
  have pos: "get_kmsauth_token example_lib 3 example_mint (2025, 6, 1, 12, 0, 0) JNull ?cfg ''alice'' ?c
      = (Inr (JStr ''dG9rZW4=''),
       \<lparr>mode = CACHEMODE_ENABLED,
        entries = [(''kmsauth-us-east-1'',
                    JObj [(''token'', JStr ''dG9rZW4=''), (''Expiration'', JStr ''20250601T125400Z'')])],
        saved = [(''kmsauth-us-east-1'',
                  JObj [(''token'', JStr ''dG9rZW4=''), (''Expiration'', JStr ''20250601T125400Z'')])]\<rparr>,
       [MintToken ''us-east-1''])"
    by (simp add: get_kmsauth_token_def cached_kmsauth_token_def kmsauth_cache_key_def
          get_bless_cache_def example_load_def cache_get_def cache_set_def cache_save_def example_mint_def example_lib_def
          Let_def)
  from pos neg show ?thesis by simp
qed

section \<open>The signing response\<close>

lemma py_in_key: "py_in k (JObj kvs) = Inr (map_of kvs k \<noteq> None)"
  by (simp add: map_of_eq_None_iff)

lemma has_error_type_obj:
  "has_error_type (JObj kvs) name = Inr (map_of kvs ''errorType'' = Some (JStr name))"
  by (cases "map_of kvs ''errorType''") (simp_all add: has_error_type_def py_in_key del: py_in.simps)

lemma bless_sign_refused:
  assumes "read_public_key E = (key, kevs)" and "take 8 key = ''ssh-rsa ''"
    and "getCert E region (sign_request E ctx key) = Inr cert"
    and "check_cert (json_loads E) nocache (kmsauth_conf ctx)
           (cache_save (cache_set (cache_set c ''bastion_ips'' (ip_list ctx))
                                  ''remote_ip'' (remote_ip ctx))) cert = (Inl e, c2)"
  shows "bless_sign E region nocache ctx c = (Inl e, c2, kevs @ [SignRequest region])"
  using assms by (simp add: bless_sign_def Let_def)

lemma bless_nocache:
  "bless prelude E blessconfig region True file =
     (case prelude region True file of
        Inl (e, file') \<Rightarrow> (Inl e, file', [])
      | Inr ctx \<Rightarrow>
          (case bless_sign E region True ctx (cache ctx) of
             (r, c, evs) \<Rightarrow> (r, saved c, evs)))"
  by (simp add: bless_def bless_pipeline_def split: sum.splits)

lemma main_loop_tried:
  "\<exists>tried. snd (snd (snd (main_loop attempt (region # regions) w))) = region # tried"
  by (cases "attempt region w" rule: prod_cases3; cases "fst (attempt region w)")
     (auto split: prod.splits)

text \<open>
  Claim C3, as amended. In a run of \<open>main\<close> with the bless backend, let the first part
  of \<open>bless\<close> reach the gate for the first region of the ring, the public key be an
  RSA key, and the signing function answer with a response that does not begin with the
  certificate prefix. When the response is not JSON, the parser's exception leaves
  \<open>bless\<close>, \<open>main\<close> does not catch it, and the run ends there with that exception
  after this one region. When the response parses to an object whose \<open>errorType\<close> is
  none of KMSAuthValidationError, ClientError and InputValidationError, \<open>bless\<close>
  raises LambdaInvocationException with the raw response in its message, \<open>main\<close>
  catches it, and the run goes on with the rest of the ring: the next region, when there
  is one, is tried. The check of the response decides this in the same way whether the
  run is a no-cache run or not, and leaves the cache as it is.
\<close>

theorem unclassified_response:
  fixes prelude E blessconfig ca_backend start_region REGION_ALIAS cache_file region rest ctx key kevs cert
  defines "c1 \<equiv> cache_save (cache_set (cache_set (cache ctx) ''bastion_ips'' (ip_list ctx))
                                      ''remote_ip'' (remote_ip ctx))"
  defines "run \<equiv> main prelude E blessconfig ca_backend start_region REGION_ALIAS cache_file"
  defines "unknown \<equiv> LambdaInvocationException
                        (''BLESS client did not recieve a valid cert. Instead got: '' @ cert)"
  assumes backend: "map to_lower ca_backend = ''bless''"
    and ring: "get_regions start_region REGION_ALIAS = region # rest"
    and gate: "prelude region True cache_file = Inr ctx"
    and key: "read_public_key E = (key, kevs)"
    and rsa: "take 8 key = ''ssh-rsa ''"
    and answer: "getCert E region (sign_request E ctx key) = Inr cert"
    and no_cert: "take 29 cert \<noteq> CERT_PREFIX"
  shows "(json_loads E cert = None \<longrightarrow>
            bless prelude E blessconfig region True cache_file
              = (Inl JSONDecodeError, saved c1, kevs @ [SignRequest region])
          \<and> run = (Uncaught JSONDecodeError, saved c1, kevs @ [SignRequest region], [region]))
       \<and> (\<forall>kvs. json_loads E cert = Some (JObj kvs)
             \<and> map_of kvs ''errorType'' \<noteq> Some (JStr ''KMSAuthValidationError'')
             \<and> map_of kvs ''errorType'' \<noteq> Some (JStr ''ClientError'')
             \<and> map_of kvs ''errorType'' \<noteq> Some (JStr ''InputValidationError'')
           \<longrightarrow> bless prelude E blessconfig region True cache_file
                 = (Inl unknown, saved c1, kevs @ [SignRequest region])
               \<and> run = (case main_loop (main_attempt prelude E blessconfig ca_backend) rest (saved c1) of
                          (out, w, evs, tried) \<Rightarrow>
                            (out, w, (kevs @ [SignRequest region]) @ evs, region # tried))
               \<and> (\<forall>nxt rest'. rest = nxt # rest' \<longrightarrow>
                     take 2 (snd (snd (snd run))) = [region, nxt]))
       \<and> (\<forall>nocache config c.
             (json_loads E cert = None \<longrightarrow>
                check_cert (json_loads E) nocache config c cert = (Inl JSONDecodeError, c))
           \<and> (\<forall>kvs. json_loads E cert = Some (JObj kvs)
                 \<and> map_of kvs ''errorType'' \<noteq> Some (JStr ''KMSAuthValidationError'')
                 \<and> map_of kvs ''errorType'' \<noteq> Some (JStr ''ClientError'')
                 \<and> map_of kvs ''errorType'' \<noteq> Some (JStr ''InputValidationError'')
               \<longrightarrow> check_cert (json_loads E) nocache config c cert = (Inl unknown, c)))"
proof -
  let ?attempt = "main_attempt prelude E blessconfig ca_backend"
  let ?evs = "kevs @ [SignRequest region]"
  have attempt: "?attempt region cache_file = bless prelude E blessconfig region True cache_file"
    using backend by (simp add: main_attempt_def)
  have raised: "bless prelude E blessconfig region True cache_file = (Inl e, saved c1, ?evs)"
    if "check_cert (json_loads E) True (kmsauth_conf ctx) c1 cert = (Inl e, c1)" for e
    using bless_sign_refused[OF key rsa answer, of True "cache ctx" e c1] that gate
    by (simp add: bless_nocache c1_def)
  have unparsable: "check_cert (json_loads E) nocache config c cert = (Inl JSONDecodeError, c)"
    if "json_loads E cert = None" for nocache config c
    using that no_cert by (simp add: check_cert_def)
  have unclassified: "check_cert (json_loads E) nocache config c cert = (Inl unknown, c)"
    if "json_loads E cert = Some (JObj kvs)"
      "map_of kvs ''errorType'' \<noteq> Some (JStr ''KMSAuthValidationError'')"
      "map_of kvs ''errorType'' \<noteq> Some (JStr ''ClientError'')"
      "map_of kvs ''errorType'' \<noteq> Some (JStr ''InputValidationError'')" for nocache config c kvs
    using that no_cert by (simp add: check_cert_def has_error_type_obj unknown_def)
  have one: "json_loads E cert = None \<longrightarrow>
            bless prelude E blessconfig region True cache_file = (Inl JSONDecodeError, saved c1, ?evs)
          \<and> run = (Uncaught JSONDecodeError, saved c1, ?evs, [region])"
  proof
    assume n: "json_loads E cert = None"
    have b: "bless prelude E blessconfig region True cache_file = (Inl JSONDecodeError, saved c1, ?evs)"
      by (rule raised) (rule unparsable[OF n])
    have "run = (Uncaught JSONDecodeError, saved c1, ?evs, [region])"
      unfolding run_def main_def ring by (simp add: attempt b)
    with b show "bless prelude E blessconfig region True cache_file = (Inl JSONDecodeError, saved c1, ?evs)
          \<and> run = (Uncaught JSONDecodeError, saved c1, ?evs, [region])"
      by simp
  qed
  have two: "bless prelude E blessconfig region True cache_file = (Inl unknown, saved c1, ?evs)
               \<and> run = (case main_loop ?attempt rest (saved c1) of
                          (out, w, evs, tried) \<Rightarrow> (out, w, ?evs @ evs, region # tried))
               \<and> (\<forall>nxt rest'. rest = nxt # rest' \<longrightarrow>
                     take 2 (snd (snd (snd run))) = [region, nxt])"
    if h: "json_loads E cert = Some (JObj kvs)"
      "map_of kvs ''errorType'' \<noteq> Some (JStr ''KMSAuthValidationError'')"
      "map_of kvs ''errorType'' \<noteq> Some (JStr ''ClientError'')"
      "map_of kvs ''errorType'' \<noteq> Some (JStr ''InputValidationError'')" for kvs
  proof -
    have b: "bless prelude E blessconfig region True cache_file = (Inl unknown, saved c1, ?evs)"
      by (rule raised) (rule unclassified[OF h])
    have r: "run = (case main_loop ?attempt rest (saved c1) of
                          (out, w, evs, tried) \<Rightarrow> (out, w, ?evs @ evs, region # tried))"
      unfolding run_def main_def ring by (simp add: attempt b unknown_def)
    have t: "take 2 (snd (snd (snd run))) = [region, nxt]" if "rest = nxt # rest'" for nxt rest'
    proof -
      obtain tried where "snd (snd (snd (main_loop ?attempt (nxt # rest') (saved c1)))) = nxt # tried"
        using main_loop_tried[of ?attempt nxt rest' "saved c1"] by blast
      with r that show ?thesis
        by (cases "main_loop ?attempt (nxt # rest') (saved c1)" rule: prod_cases4) simp
    qed
    from b r t show ?thesis by blast
  qed
  from one two unparsable unclassified show ?thesis by blast
qed

text \<open>
  The signing function answers with an unknown error type in \<open>us-east-1\<close>, the first
  of two regions: \<open>bless\<close> raises the exception that carries the response, and the
  run goes on to \<open>us-west-2\<close>.
\<close>

theorem unclassified_response_witness:
  "bless example_prelude example_env \<lparr>certlifetime = 3600, ipcachelifetime = 120\<rparr> ''us-east-1'' True []
     = (Inl (LambdaInvocationException
          (''BLESS client did not recieve a valid cert. Instead got: '' @ other_error_response)),
        [(''bastion_ips'', JStr ''203.0.113.5''), (''remote_ip'', JNull)],
        [SignRequest ''us-east-1''])
   \<and> take 2 (snd (snd (snd (main example_prelude example_env
        \<lparr>certlifetime = 3600, ipcachelifetime = 120\<rparr> ''bless''
        ''us-east-1'' [(''EAST'', ''us-east-1''), (''WEST'', ''us-west-2'')] []))))
       = [''us-east-1'', ''us-west-2'']"
proof -
  let ?ctx = "\<lparr>username = ''alice'', my_ip = JStr ''203.0.113.5'', ip_list = JStr ''203.0.113.5'',
          remote_ip = JNull,
          kmsauth_conf = \<lparr>kmskey = ''alias/bless'', kms_context = [(''to'', ''bless'')], awsregion = ''us-east-1''\<rparr>,
          identity_file = ''/home/alice/.ssh/blessid'',
          cache = get_bless_cache example_load True [],
          userIP = UserIP 120 [] (Some ''203.0.113.5'')\<rparr>"
  have backend: "map to_lower ''bless'' = ''bless''"
    by (simp add: to_lower_def)
  have ring: "get_regions ''us-east-1'' [(''EAST'', ''us-east-1''), (''WEST'', ''us-west-2'')]
      = ''us-east-1'' # [''us-west-2'']"
    by (simp add: get_regions_rotate start_index_def)
  have gate: "example_prelude ''us-east-1'' True [] = Inr ?ctx"
    by (simp add: example_prelude_def)
  have key: "read_public_key example_env = (''ssh-rsa AAAAB3NzaC1yc2E alice'', [])"
    by (simp add: read_public_key_def example_env_def)
  have rsa: "take 8 ''ssh-rsa AAAAB3NzaC1yc2E alice'' = ''ssh-rsa ''"
    by simp
  have answer: "getCert example_env ''us-east-1''
      (sign_request example_env ?ctx ''ssh-rsa AAAAB3NzaC1yc2E alice'') = Inr other_error_response"
    by (simp add: example_env_def example_getCert_def)
  have no_cert: "take 29 other_error_response \<noteq> CERT_PREFIX"
    by (simp add: other_error_response_def CERT_PREFIX_def)
  have parsed: "json_loads example_env other_error_response
      = Some (JObj [(''errorType'', JStr ''AccessDeniedException'')])"
    by (simp add: example_env_def example_loads_def)
  have unknown: "json_loads example_env other_error_response
        = Some (JObj [(''errorType'', JStr ''AccessDeniedException'')])
      \<and> map_of [(''errorType'', JStr ''AccessDeniedException'')] ''errorType''
          \<noteq> Some (JStr ''KMSAuthValidationError'')
      \<and> map_of [(''errorType'', JStr ''AccessDeniedException'')] ''errorType''
          \<noteq> Some (JStr ''ClientError'')
      \<and> map_of [(''errorType'', JStr ''AccessDeniedException'')] ''errorType''
          \<noteq> Some (JStr ''InputValidationError'')"
    using parsed by simp
  note run = unclassified_response[where prelude = example_prelude and E = example_env
        and blessconfig = "\<lparr>certlifetime = 3600, ipcachelifetime = 120\<rparr>"
        and ca_backend = "''bless''" and start_region = "''us-east-1''"
        and REGION_ALIAS = "[(''EAST'', ''us-east-1''), (''WEST'', ''us-west-2'')]"
        and cache_file = "[]" and region = "''us-east-1''" and rest = "[''us-west-2'']"
        and ctx = ?ctx and key = "''ssh-rsa AAAAB3NzaC1yc2E alice''" and kevs = "[]"
        and cert = other_error_response,
        OF backend ring gate key rsa answer no_cert,
        THEN conjunct2, THEN conjunct1, rule_format,
        of "[(''errorType'', JStr ''AccessDeniedException'')]", OF unknown]
  have raised: "bless example_prelude example_env \<lparr>certlifetime = 3600, ipcachelifetime = 120\<rparr>
        ''us-east-1'' True []
     = (Inl (LambdaInvocationException
          (''BLESS client did not recieve a valid cert. Instead got: '' @ other_error_response)),
        [(''bastion_ips'', JStr ''203.0.113.5''), (''remote_ip'', JNull)],
        [SignRequest ''us-east-1''])"
    using run[THEN conjunct1]
    by (simp add: get_bless_cache_def example_load_def cache_set_def cache_save_def)
  have tried: "take 2 (snd (snd (snd (main example_prelude example_env
        \<lparr>certlifetime = 3600, ipcachelifetime = 120\<rparr> ''bless''
        ''us-east-1'' [(''EAST'', ''us-east-1''), (''WEST'', ''us-west-2'')] []))))
       = [''us-east-1'', ''us-west-2'']"
    by (rule run[THEN conjunct2, THEN conjunct2, rule_format, of "''us-west-2''" "[]"]) simp
  from raised tried show ?thesis by (rule conjI)
qed

text \<open>
  The claim as stated fails: the signing function answers with an unknown error type
  in the first region and with a certificate in the second. The run tries both regions
  and ends with status 0.
\<close>

theorem unknown_error_type_is_retried:
  "fst (main example_prelude example_env \<lparr>certlifetime = 3600, ipcachelifetime = 120\<rparr> ''bless''
          ''us-east-1'' [(''EAST'', ''us-east-1''), (''WEST'', ''us-west-2'')] []) = Exit 0
   \<and> snd (snd (snd (main example_prelude example_env \<lparr>certlifetime = 3600, ipcachelifetime = 120\<rparr> ''bless''
          ''us-east-1'' [(''EAST'', ''us-east-1''), (''WEST'', ''us-west-2'')] [])))
       = [''us-east-1'', ''us-west-2'']"
  by (simp add: main_def main_attempt_def bless_def bless_pipeline_def bless_sign_def check_cert_def
        read_public_key_def sign_request_def
        example_prelude_def example_env_def example_getCert_def example_loads_def
        other_error_response_def kmsauth_error_response_def CERT_PREFIX_def
        get_regions_rotate start_index_def to_lower_def has_error_type_obj
        cache_set_def cache_save_def get_bless_cache_def example_load_def Let_def)




section \<open>Runs of \<open>main\<close> with the bless backend\<close>

lemma main_loop_events:
  assumes "\<And>region w. ev \<notin> set (snd (snd (attempt region w)))"
  shows "ev \<notin> set (fst (snd (snd (main_loop attempt regions w))))"
proof (induction regions arbitrary: w)
  case Nil
  then show ?case by simp
next
  case (Cons region regions)
  obtain r w' evs where a: "attempt region w = (r, w', evs)"
    by (cases "attempt region w") auto
  have e: "ev \<notin> set evs" using assms[of region w] a by simp
  obtain out w'' evs' tried where m: "main_loop attempt regions w' = (out, w'', evs', tried)"
    by (cases "main_loop attempt regions w'") auto
  have e': "ev \<notin> set evs'" using Cons.IH[of w'] m by simp
  show ?case using a m e e' by (cases r) auto
qed

lemma main_loop_first_events:
  "set (snd (snd (attempt region w)))
     \<subseteq> set (fst (snd (snd (main_loop attempt (region # regions) w))))"
  by (cases "attempt region w" rule: prod_cases3; cases "fst (attempt region w)")
     (auto split: prod.splits)

lemma check_cert_nocache: "snd (check_cert loads True config c cert) = c"
  by (simp add: check_cert_def split: option.splits sum.splits)

lemma read_public_key_events: "read_public_key E = (key, kevs) \<Longrightarrow> set kevs \<subseteq> {KeyGen}"
  by (auto simp: read_public_key_def split: option.splits)

lemma bless_sign_events:
  "set (snd (snd (bless_sign E region nocache ctx c)))
     \<subseteq> {KeyGen, SignRequest region, AgentRemove, AgentAdd} \<union> range WriteCert"
proof -
  obtain pk kevs where pk: "read_public_key E = (pk, kevs)"
    by (cases "read_public_key E") auto
  show ?thesis
    using read_public_key_events[OF pk]
    by (auto simp: bless_sign_def Let_def pk split: sum.splits prod.splits)
qed

lemma bless_sign_no_check:
  "FreshnessCheck \<notin> set (snd (snd (bless_sign E region nocache ctx c)))"
  using bless_sign_events[of E region nocache ctx c] by auto

lemma bless_sign_other_keys:
  assumes "k \<noteq> ''bastion_ips''" "k \<noteq> ''remote_ip''" "k \<noteq> ''certip''"
  shows "map_of (entries (fst (snd (bless_sign E region True ctx c)))) k = map_of (entries c) k"
proof -
  obtain pk kevs where pk: "read_public_key E = (pk, kevs)"
    by (cases "read_public_key E") auto
  have cc: "check_cert loads True config c0 cert = (r, c2) \<Longrightarrow> c2 = c0" for loads config c0 cert r c2
    using check_cert_nocache[of loads config c0 cert] by simp
  show ?thesis
    using assms
    by (auto simp: bless_sign_def Let_def pk cache_set_def cache_save_def map_of_upd
          split: sum.splits prod.splits dest!: cc)
qed

lemma bless_sign_saved:
  "saved (fst (snd (bless_sign E region True ctx c)))
     = entries (fst (snd (bless_sign E region True ctx c)))"
proof -
  obtain pk kevs where pk: "read_public_key E = (pk, kevs)"
    by (cases "read_public_key E") auto
  have cc: "check_cert loads True config c0 cert = (r, c2) \<Longrightarrow> c2 = c0" for loads config c0 cert r c2
    using check_cert_nocache[of loads config c0 cert] by simp
  show ?thesis
    by (auto simp: bless_sign_def Let_def pk cache_set_def cache_save_def
          split: sum.splits prod.splits dest!: cc)
qed

lemma bless_sign_requests:
  assumes "read_public_key E = (key, kevs)" and "take 8 key = ''ssh-rsa ''"
  shows "SignRequest region \<in> set (snd (snd (bless_sign E region nocache ctx c)))"
  using assms
  by (auto simp: bless_sign_def Let_def split: sum.splits prod.splits)

text \<open>
  Claim C10. With the backend \<open>bless\<close>, the body of the loop in \<open>main\<close> is
  \<open>bless\<close> with \<open>nocache\<close> true for every region, and \<open>bless\<close> with \<open>nocache\<close>
  true is its first part followed by the signing part, with no freshness check between
  them. So in such a run the freshness check is never made, whatever the age of the
  certificate file. Whenever the first part of \<open>bless\<close> reaches the gate and the
  public key is an RSA key, the call sends the signing request for its region, and a
  run sends it for the first region of the ring. The kmsauth entry of the region is in
  the cache file after the call what it was in the cache at the gate, and the check of
  the response never changes the cache: the token is never purged.
\<close>

theorem main_bless_nocache:
  assumes "map to_lower ca_backend = ''bless''"
  shows "main_attempt prelude E blessconfig ca_backend region file
           = bless prelude E blessconfig region True file
       \<and> bless prelude E blessconfig region True file
           = (case prelude region True file of
                Inl (e, file') \<Rightarrow> (Inl e, file', [])
              | Inr ctx \<Rightarrow>
                  (case bless_sign E region True ctx (cache ctx) of
                     (r, c, evs) \<Rightarrow> (r, saved c, evs)))
       \<and> FreshnessCheck \<notin> set (fst (snd (snd
             (main prelude E blessconfig ca_backend start_region REGION_ALIAS file))))
       \<and> (\<forall>ctx key kevs. prelude region True file = Inr ctx
               \<and> read_public_key E = (key, kevs) \<and> take 8 key = ''ssh-rsa ''
             \<longrightarrow> SignRequest region \<in> set (snd (snd (bless prelude E blessconfig region True file)))
               \<and> SignRequest region
                   \<in> set (snd (snd (main_attempt prelude E blessconfig ca_backend region file)))
               \<and> (\<forall>rest. get_regions start_region REGION_ALIAS = region # rest \<longrightarrow>
                    SignRequest region \<in> set (fst (snd (snd
                      (main prelude E blessconfig ca_backend start_region REGION_ALIAS file))))))
       \<and> (\<forall>ctx. prelude region True file = Inr ctx \<longrightarrow>
             map_of (fst (snd (bless prelude E blessconfig region True file)))
                    (kmsauth_cache_key (kmsauth_conf ctx))
               = map_of (entries (cache ctx)) (kmsauth_cache_key (kmsauth_conf ctx)))
       \<and> (\<forall>config c cert. snd (check_cert (json_loads E) True config c cert) = c)"
proof -
  let ?attempt = "main_attempt prelude E blessconfig ca_backend"
  have a: "?attempt r f = bless prelude E blessconfig r True f" for r f
    using assms by (simp add: main_attempt_def)
  have b: "bless prelude E blessconfig region True file
           = (case prelude region True file of
                Inl (e, file') \<Rightarrow> (Inl e, file', [])
              | Inr ctx \<Rightarrow>
                  (case bless_sign E region True ctx (cache ctx) of
                     (r, c, evs) \<Rightarrow> (r, saved c, evs)))"
    by (rule bless_nocache)
  have nf: "FreshnessCheck \<notin> set (snd (snd (?attempt r f)))" for r f
  proof -
    have nc: "FreshnessCheck \<notin> set evs" if "bless_sign E r True ctx c = (x, a', evs)" for ctx c x a' evs
      using bless_sign_no_check[of E r True ctx c] that by simp
    show ?thesis
      by (auto simp: a bless_def bless_pipeline_def split: sum.splits prod.splits dest: nc)
  qed
  have run: "FreshnessCheck \<notin> set (fst (snd (snd
             (main prelude E blessconfig ca_backend start_region REGION_ALIAS file))))"
    unfolding main_def by (rule main_loop_events) (rule nf)
  have s: "SignRequest region \<in> set (snd (snd (bless prelude E blessconfig region True file)))"
    if "prelude region True file = Inr ctx" "read_public_key E = (key, kevs)"
       "take 8 key = ''ssh-rsa ''" for ctx key kevs
    using bless_sign_requests[OF that(2,3), of region True ctx "cache ctx"] that(1)
    by (cases "bless_sign E region True ctx (cache ctx)" rule: prod_cases3) (simp add: b)
  have m: "SignRequest region \<in> set (fst (snd (snd
              (main prelude E blessconfig ca_backend start_region REGION_ALIAS file))))"
    if "prelude region True file = Inr ctx" "read_public_key E = (key, kevs)"
       "take 8 key = ''ssh-rsa ''" "get_regions start_region REGION_ALIAS = region # rest"
    for ctx key kevs rest
    using s[OF that(1,2,3)] main_loop_first_events[of ?attempt region "file" rest]
    unfolding main_def that(4) a by blast
  have c: "snd (check_cert (json_loads E) True config c cert) = c" for config c cert
    by (rule check_cert_nocache)
  have k: "map_of (fst (snd (bless prelude E blessconfig region True file)))
                    (kmsauth_cache_key (kmsauth_conf ctx))
               = map_of (entries (cache ctx)) (kmsauth_cache_key (kmsauth_conf ctx))"
    if "prelude region True file = Inr ctx" for ctx
  proof -
    have "map_of (entries (fst (snd (bless_sign E region True ctx (cache ctx)))))
              (kmsauth_cache_key (kmsauth_conf ctx))
            = map_of (entries (cache ctx)) (kmsauth_cache_key (kmsauth_conf ctx))"
      by (rule bless_sign_other_keys) (simp_all add: kmsauth_cache_key_def)
    with bless_sign_saved[of E region ctx "cache ctx"] that show ?thesis
      by (cases "bless_sign E region True ctx (cache ctx)" rule: prod_cases3) (simp add: b)
  qed
  from a[of region "file"] b run s m c k show ?thesis
    unfolding a by blast
qed

text \<open>
  A run for \<open>us-west-2\<close> with an RSA key and a certificate file written 100 seconds
  ago, which the freshness check would accept: the signing request is sent.
\<close>

theorem main_bless_nocache_witness:
  "SignRequest ''us-west-2'' \<in> set (fst (snd (snd
     (main example_prelude (example_env\<lparr>cert_mtime := Some 900\<rparr>)
        \<lparr>certlifetime = 3600, ipcachelifetime = 120\<rparr> ''bless''
        ''us-west-2'' [(''WEST'', ''us-west-2'')] []))))"
proof -
  let ?ctx = "\<lparr>username = ''alice'', my_ip = JStr ''203.0.113.5'', ip_list = JStr ''203.0.113.5'',
          remote_ip = JNull,
          kmsauth_conf = \<lparr>kmskey = ''alias/bless'', kms_context = [(''to'', ''bless'')], awsregion = ''us-west-2''\<rparr>,
          identity_file = ''/home/alice/.ssh/blessid'',
          cache = get_bless_cache example_load True [],
          userIP = UserIP 120 [] (Some ''203.0.113.5'')\<rparr>"
  have backend: "map to_lower ''bless'' = ''bless''"
    by (simp add: to_lower_def)
  have gate: "example_prelude ''us-west-2'' True [] = Inr ?ctx"
    by (simp add: example_prelude_def)
  have key: "read_public_key (example_env\<lparr>cert_mtime := Some 900\<rparr>)
      = (''ssh-rsa AAAAB3NzaC1yc2E alice'', [])"
    by (simp add: read_public_key_def example_env_def)
  have rsa: "take 8 ''ssh-rsa AAAAB3NzaC1yc2E alice'' = ''ssh-rsa ''"
    by simp
  have ring: "get_regions ''us-west-2'' [(''WEST'', ''us-west-2'')] = ''us-west-2'' # []"
    by (simp add: get_regions_rotate start_index_def)
  show ?thesis
    using main_bless_nocache[OF backend, of example_prelude "example_env\<lparr>cert_mtime := Some 900\<rparr>"
        "\<lparr>certlifetime = 3600, ipcachelifetime = 120\<rparr>" "''us-west-2''" "[]"
        "''us-west-2''" "[(''WEST'', ''us-west-2'')]"] gate key rsa ring
    by blast
qed


section \<open>The retry of the Vault backend\<close>










end
